theory Spec2Isabelle
  imports Main
begin

section \<open>JavaScript values\<close>

text \<open>
  Token claims, request bodies and oracle answers are JSON documents; the code reads them
  through property access, \<open>||\<close>, \<open>!\<close>, \<open>===\<close> and template literals. A JSON object is an
  association list with distinct keys in insertion order. \<open>JNum\<close> carries the integer-valued
  numbers below \<open>2^53\<close>; other numbers are not modelled.
\<close>

datatype jsval =
    JUndefined
  | JNull
  | JBool bool
  | JNum int
  | JStr string
  | JArr "jsval list"
  | JObj "(string \<times> jsval) list"

text \<open>\<open>!!v\<close>: the values that \<open>||\<close>, \<open>!\<close> and \<open>?:\<close> treat as true.\<close>

fun truthy :: "jsval \<Rightarrow> bool" where
  "truthy JUndefined = False"
| "truthy JNull = False"
| "truthy (JBool b) = b"
| "truthy (JNum n) = (n \<noteq> 0)"
| "truthy (JStr s) = (s \<noteq> [])"
| "truthy (JArr xs) = True"
| "truthy (JObj kvs) = True"

text \<open>\<open>a || b\<close>: the first operand when it is truthy, otherwise the second.\<close>

definition js_or :: "jsval \<Rightarrow> jsval \<Rightarrow> jsval" where
  "js_or a b = (if truthy a then a else b)"

text \<open>
  \<open>v.k\<close>: reading a property of \<open>null\<close> or \<open>undefined\<close> throws a TypeError (\<open>None\<close>); a missing
  property, or any of the property names used here on a primitive or an array, is
  \<open>undefined\<close>.
\<close>

fun get_prop :: "jsval \<Rightarrow> string \<Rightarrow> jsval option" where
  "get_prop JUndefined k = None"
| "get_prop JNull k = None"
| "get_prop (JObj kvs) k = Some (case map_of kvs k of None \<Rightarrow> JUndefined | Some v \<Rightarrow> v)"
| "get_prop v k = Some JUndefined"

text \<open>Property access on a value known to be an object (a decoded token payload).\<close>

definition get_field :: "(string \<times> jsval) list \<Rightarrow> string \<Rightarrow> jsval" where
  "get_field kvs k = (case map_of kvs k of None \<Rightarrow> JUndefined | Some v \<Rightarrow> v)"

text \<open>
  \<open>{...a, ...b}\<close>: the properties of \<open>a\<close>, each overwritten in place by the property of the same
  name in \<open>b\<close>, followed by the remaining properties of \<open>b\<close>.
\<close>

fun assign :: "(string \<times> jsval) list \<Rightarrow> string \<Rightarrow> jsval \<Rightarrow> (string \<times> jsval) list" where
  "assign [] k v = [(k, v)]"
| "assign ((k', v') # kvs) k v = (if k' = k then (k, v) # kvs else (k', v') # assign kvs k v)"

fun spread :: "(string \<times> jsval) list \<Rightarrow> (string \<times> jsval) list \<Rightarrow> (string \<times> jsval) list" where
  "spread a [] = a"
| "spread a ((k, v) # b) = spread (assign a k v) b"

subsection \<open>Strings\<close>

definition startsWith :: "string \<Rightarrow> string \<Rightarrow> bool" where
  "startsWith s p = (take (length p) s = p)"

fun dec_nat :: "nat \<Rightarrow> string" where
  "dec_nat n = (if n < 10 then [char_of (48 + n)] else dec_nat (n div 10) @ [char_of (48 + n mod 10)])"

declare dec_nat.simps [simp del]

definition dec_int :: "int \<Rightarrow> string" where
  "dec_int i = (if i < 0 then CHR ''-'' # dec_nat (nat (- i)) else dec_nat (nat i))"

fun join :: "string \<Rightarrow> string list \<Rightarrow> string" where
  "join sep [] = []"
| "join sep [x] = x"
| "join sep (x # y # ys) = x @ sep @ join sep (y # ys)"

text \<open>\<open>`${v}`\<close>: the string a template literal puts in place of a value.\<close>

fun js_string :: "jsval \<Rightarrow> string" where
  "js_string JUndefined = ''undefined''"
| "js_string JNull = ''null''"
| "js_string (JBool b) = (if b then ''true'' else ''false'')"
| "js_string (JNum n) = dec_int n"
| "js_string (JStr s) = s"
| "js_string (JArr xs) =
     join '','' (map (\<lambda>x. if x = JNull \<or> x = JUndefined then [] else js_string x) xs)"
| "js_string (JObj kvs) = ''[object Object]''"

section \<open>Errors and responses\<close>

text \<open>
  A thrown \<open>Error\<close>: the handlers tell errors apart by \<open>name\<close>, \<open>message\<close> and
  \<open>statusCode\<close>.
\<close>

record js_error =
  err_name :: string
  err_message :: string
  statusCode :: "nat option"

definition Error :: "string \<Rightarrow> js_error" where
  "Error msg = \<lparr>err_name = ''Error'', err_message = msg, statusCode = None\<rparr>"

definition TypeError :: "string \<Rightarrow> js_error" where
  "TypeError msg = \<lparr>err_name = ''TypeError'', err_message = msg, statusCode = None\<rparr>"

text \<open>
  What a handler sends: \<open>res.status(s).json(body)\<close>, or the streamed blob of a download.
\<close>

datatype response = Json nat jsval | File string "string option" "string option" nat

definition error_json :: "nat \<Rightarrow> string \<Rightarrow> jsval \<Rightarrow> response" where
  "error_json st e m = Json st (JObj [(''error'', JStr e), (''message'', m)])"

section \<open>Tokens, keys and the outside world\<close>

text \<open>
  \<open>a === b\<close>: primitives are compared by value; two parsed objects or arrays are never the
  same reference.
\<close>

fun primitive :: "jsval \<Rightarrow> bool" where
  "primitive (JArr xs) = False"
| "primitive (JObj kvs) = False"
| "primitive v = True"

definition strict_eq :: "jsval \<Rightarrow> jsval \<Rightarrow> bool" where
  "strict_eq a b = (primitive a \<and> a = b)"

text \<open>\<open>v?.k\<close>: \<open>undefined\<close> instead of a TypeError.\<close>

definition opt_prop :: "jsval \<Rightarrow> string \<Rightarrow> jsval" where
  "opt_prop v k = (case get_prop v k of None \<Rightarrow> JUndefined | Some x \<Rightarrow> x)"

text \<open>
  What \<open>jwt.decode(token, {complete: true})\<close> reads from a well-formed token: the header's
  \<open>alg\<close> and \<open>kid\<close> and the payload object.
\<close>

record jwt =
  hdr_alg :: jsval
  hdr_kid :: jsval
  payload :: "(string \<times> jsval) list"

type_synonym key = string

record jwk =
  kid :: jsval
  material :: string

text \<open>A key-set document; \<open>jwks_keys\<close> is absent when the document has no \<open>keys\<close> array.\<close>

record jwks_doc =
  jwks_keys :: "jwk list option"

text \<open>
  What the key-set \<open>fetch\<close> and the read of its body settle to: a rejection of \<open>fetch\<close> (a
  network failure), or a response with its status and its body parsed as JSON (\<open>None\<close> when
  \<open>response.json()\<close> rejects). No timer runs on this call.
\<close>

datatype 'a fetched = Rejected js_error | Response nat "'a option"

definition response_ok :: "nat \<Rightarrow> bool" where
  "response_ok st = (200 \<le> st \<and> st \<le> 299)"

text \<open>
  The oracle call races with the timer that \<open>setTimeout\<close> started: either \<open>fetch\<close> settles
  first (it rejects, or it resolves once the response's status and headers have arrived), or
  the timer fires first and its callback runs \<open>controller.abort()\<close>. After \<open>fetch\<close> has
  resolved the middleware runs \<open>clearTimeout\<close> and only then reads the body with
  \<open>response.json()\<close>: the read yields the parsed body, at some number of milliseconds after
  the call was started, or rejects, or never settles.
\<close>

datatype body_read = Parsed nat jsval | ReadRejected | ReadStalls

datatype oracle_fetch = FetchRejected js_error | FetchResolved nat body_read

datatype oracle_race = Settles oracle_fetch | TimerFires

text \<open>
  A file as it arrives in a multipart body, and the request as the middlewares see and
  extend it (\<open>req.user\<close>, \<open>req.fileScope\<close> and \<open>req.params.id\<close> start \<open>undefined\<close>).
\<close>

record upload_file =
  file_len :: nat
  originalname :: string
  mimetype :: string

record request =
  req_method :: string
  req_path :: string
  authorization :: "string option"
  req_body :: jsval
  req_ip :: string
  req_file :: "upload_file option"
  params_id :: jsval
  user :: jsval
  fileScope :: jsval

text \<open>
  Everything the gateway consumes from outside: the jsonwebtoken and crypto libraries, the
  clock, the key-set endpoints, the oracle, \<open>parseInt\<close>, Express's route matching (the
  route's method and pattern against the request's; the result is the text captured for
  \<open>:id\<close>, empty for a pattern without it), the rate-limit library's verdict for a limiter
  (window, maximum) and a key, the random file id and the current time as an ISO string.
\<close>

record env =
  jwt_decode :: "string \<Rightarrow> jwt option"
  jws_verify :: "string \<Rightarrow> string \<Rightarrow> key \<Rightarrow> bool"
  clockTimestamp :: int
  createPublicKey :: "jwk \<Rightarrow> js_error + key"
  date_now :: int
  date_now_fetched :: int
  jwks_endpoint :: "string \<Rightarrow> jwks_doc fetched"
  oracle_call :: "string \<Rightarrow> nat \<Rightarrow> jsval \<Rightarrow> string option \<Rightarrow> oracle_race"
  parseInt :: "jsval \<Rightarrow> jsval"
  route :: "string \<Rightarrow> string \<Rightarrow> string \<Rightarrow> string \<Rightarrow> string option"
  limiter_admits :: "nat \<Rightarrow> nat \<Rightarrow> jsval \<Rightarrow> bool"
  uuidv4 :: string
  iso_now :: string

text \<open>The outbound calls and storage operations of a request, in the order they happen.\<close>

datatype event =
    JwksFetch string
  | OracleFetch string jsval "string option"
  | OracleAbort
  | StorageUpload string
  | StorageList string
  | StorageDownload string
  | StorageDelete string

text \<open>
  A blob of the container: its name, its metadata (absent when the service returns none)
  and its content length.
\<close>

record blob =
  blob_name :: string
  metadata :: "(string \<rightharpoonup> string) option"
  contentLength :: nat

record cache_entry =
  jwks :: jwks_doc
  fetchedAt :: int

text \<open>
  The mutable state: the key-set cache of the \<open>JwksClient\<close>, the fields of the
  \<open>AzureStorageClient\<close> (\<open>containerClient\<close> holds the container's blobs once initialised),
  and the events so far.
\<close>

record world =
  cache :: "string \<rightharpoonup> cache_entry"
  isConfigured :: bool
  containerClient :: "blob list option"
  trace :: "event list"

definition emit :: "event \<Rightarrow> world \<Rightarrow> world" where
  "emit ev w = w\<lparr>trace := trace w @ [ev]\<rparr>"

section \<open>AzureStorageClient\<close>

text \<open>
  \<open>listBlobsFlat({prefix})\<close> yields the blobs whose name starts with the prefix, in the
  container's order. The storage service itself is taken not to fail.
\<close>

definition listBlobsFlat :: "blob list \<Rightarrow> string \<Rightarrow> blob list" where
  "listBlobsFlat blobs p = filter (\<lambda>b. startsWith (blob_name b) p) blobs"

definition not_configured :: js_error where
  "not_configured = \<lparr>err_name = ''Error'', err_message = ''Storage not configured'', statusCode = Some 503\<rparr>"

text \<open>
  The default parameter \<open>scope = 'user'\<close> of \<open>uploadFile\<close>, \<open>downloadFile\<close>, \<open>listFiles\<close> and
  \<open>deleteFile\<close>: an omitted or \<open>undefined\<close> argument is user scope.
\<close>

definition default_scope :: "jsval \<Rightarrow> jsval" where
  "default_scope scope = (if scope = JUndefined then JStr ''user'' else scope)"

text \<open>The scope-based prefix that the four operations build.\<close>

definition scope_prefix :: "jsval \<Rightarrow> jsval \<Rightarrow> jsval \<Rightarrow> string" where
  "scope_prefix scope tenantId userId =
     (if scope = JStr ''tenant''
      then (if truthy tenantId then js_string tenantId @ ''/shared/'' else ''shared/'')
      else (if truthy tenantId then js_string tenantId @ ''/'' @ js_string userId @ ''/''
            else js_string userId @ ''/''))"

text \<open>\<open>originalFilename.split('.').pop()\<close>: the text after the last dot, or the whole name.\<close>

definition extension :: "string \<Rightarrow> string" where
  "extension s = rev (takeWhile (\<lambda>c. c \<noteq> CHR ''.'') (rev s))"

record upload_result =
  up_fileId :: string
  up_blobName :: string
  up_originalFilename :: string
  up_contentType :: string
  up_size :: nat
  up_uploadedAt :: string

text \<open>
  \<open>uploadFile\<close>. The blob's metadata gets \<open>tenantId || ''\<close>, \<open>userId\<close> and \<open>scope\<close> as they
  are; the storage SDK accepts only strings as metadata values and throws otherwise (the
  message below stands for the SDK's; its error has no \<open>statusCode\<close> 503 and no \<open>code\<close>
  \<open>LIMIT_FILE_SIZE\<close>, which is all the upload handler looks at).
\<close>

definition metadata_string :: "jsval \<Rightarrow> string option" where
  "metadata_string v = (case v of JStr s \<Rightarrow> Some s | _ \<Rightarrow> None)"

definition uploadFile ::
  "env \<Rightarrow> jsval \<Rightarrow> jsval \<Rightarrow> nat \<Rightarrow> string \<Rightarrow> string \<Rightarrow> jsval \<Rightarrow> world
     \<Rightarrow> (js_error + upload_result) \<times> world" where
  "uploadFile e tenantId userId len originalFilename contentType scope_arg w =
     (let scope = default_scope scope_arg in
      if \<not> isConfigured w then (Inl not_configured, w)
      else case containerClient w of
        None \<Rightarrow> (Inl (Error ''Azure Storage not initialized''), w)
      | Some blobs \<Rightarrow>
          let fileId = uuidv4 e;
              blobName = scope_prefix scope tenantId userId @ fileId @ ''.'' @ extension originalFilename
          in (case (metadata_string (js_or tenantId (JStr [])), metadata_string userId,
                    metadata_string scope) of
                (Some tenant_id, Some user_id, Some scope_value) \<Rightarrow>
                  let md = [''tenant_id'' \<mapsto> tenant_id,
                            ''user_id'' \<mapsto> user_id,
                            ''original_filename'' \<mapsto> originalFilename,
                            ''content_type'' \<mapsto> contentType,
                            ''uploaded_at'' \<mapsto> iso_now e,
                            ''file_id'' \<mapsto> fileId,
                            ''scope'' \<mapsto> scope_value];
                      b = \<lparr>blob_name = blobName, metadata = Some md, contentLength = len\<rparr>
                  in (Inr \<lparr>up_fileId = fileId, up_blobName = blobName,
                           up_originalFilename = originalFilename, up_contentType = contentType,
                           up_size = len, up_uploadedAt = iso_now e\<rparr>,
                      emit (StorageUpload blobName)
                        (w\<lparr>containerClient := Some (filter (\<lambda>x. blob_name x \<noteq> blobName) blobs @ [b])\<rparr>))
              | _ \<Rightarrow> (Inl (TypeError ''metadata value is not a string''), w)))"

text \<open>
  The loop of \<open>downloadFile\<close> and \<open>deleteFile\<close> over the listed blobs: the first blob that has
  metadata whose \<open>file_id\<close> is the requested one decides (\<open>blob.metadata && blob.metadata.file_id
  === fileId\<close>); for scope \<open>user\<close> its \<open>blob.metadata.user_id\<close> must be the requesting user.
\<close>

definition has_file_id :: "string \<Rightarrow> blob \<Rightarrow> bool" where
  "has_file_id fileId b = (case metadata b of None \<Rightarrow> False | Some md \<Rightarrow> md ''file_id'' = Some fileId)"

definition stored_owner :: "blob \<Rightarrow> jsval" where
  "stored_owner b =
     (case metadata b of
        None \<Rightarrow> JUndefined
      | Some md \<Rightarrow> (case md ''user_id'' of None \<Rightarrow> JUndefined | Some u \<Rightarrow> JStr u))"

fun find_owned :: "blob list \<Rightarrow> string \<Rightarrow> jsval \<Rightarrow> jsval \<Rightarrow> js_error + blob" where
  "find_owned [] fileId userId scope = Inl (Error ''File not found'')"
| "find_owned (b # bs) fileId userId scope =
     (if has_file_id fileId b
      then (if scope = JStr ''user'' \<and> stored_owner b \<noteq> userId
            then Inl (Error ''Unauthorized: File belongs to different user'')
            else Inr b)
      else find_owned bs fileId userId scope)"

definition downloadFile ::
  "string \<Rightarrow> jsval \<Rightarrow> jsval \<Rightarrow> jsval \<Rightarrow> world \<Rightarrow> (js_error + response) \<times> world" where
  "downloadFile fileId tenantId userId scope_arg w =
     (let scope = default_scope scope_arg in
      if \<not> isConfigured w then (Inl not_configured, w)
      else case containerClient w of
        None \<Rightarrow> (Inl (Error ''Azure Storage not initialized''), w)
      | Some blobs \<Rightarrow>
          let pre = scope_prefix scope tenantId userId; w1 = emit (StorageList pre) w in
          (case find_owned (listBlobsFlat blobs pre) fileId userId scope of
             Inl err \<Rightarrow> (Inl err, w1)
           | Inr b \<Rightarrow>
               (Inr (File (blob_name b)
                       (case metadata b of None \<Rightarrow> None | Some md \<Rightarrow> md ''original_filename'')
                       (case metadata b of None \<Rightarrow> None | Some md \<Rightarrow> md ''content_type'')
                       (contentLength b)),
                emit (StorageDownload (blob_name b)) w1)))"

definition file_entry :: "blob \<Rightarrow> jsval list" where
  "file_entry b =
     (case metadata b of
        None \<Rightarrow> []
      | Some md \<Rightarrow>
          let str = (\<lambda>k. case md k of None \<Rightarrow> JUndefined | Some v \<Rightarrow> JStr v) in
          [JObj [(''fileId'', str ''file_id''), (''fileName'', str ''original_filename''),
                 (''contentType'', str ''content_type''), (''size'', JNum (int (contentLength b))),
                 (''uploadedAt'', str ''uploaded_at'')]])"

definition listFiles :: "jsval \<Rightarrow> jsval \<Rightarrow> jsval \<Rightarrow> world \<Rightarrow> (js_error + jsval list) \<times> world" where
  "listFiles tenantId userId scope_arg w =
     (let scope = default_scope scope_arg in
      if \<not> isConfigured w then (Inl not_configured, w)
      else case containerClient w of
        None \<Rightarrow> (Inl (Error ''Azure Storage not initialized''), w)
      | Some blobs \<Rightarrow>
          let pre = scope_prefix scope tenantId userId in
          (Inr (concat (map file_entry (listBlobsFlat blobs pre))), emit (StorageList pre) w))"

definition deleteFile ::
  "string \<Rightarrow> jsval \<Rightarrow> jsval \<Rightarrow> jsval \<Rightarrow> world \<Rightarrow> (js_error + unit) \<times> world" where
  "deleteFile fileId tenantId userId scope_arg w =
     (let scope = default_scope scope_arg in
      if \<not> isConfigured w then (Inl not_configured, w)
      else case containerClient w of
        None \<Rightarrow> (Inl (Error ''Azure Storage not initialized''), w)
      | Some blobs \<Rightarrow>
          let pre = scope_prefix scope tenantId userId; w1 = emit (StorageList pre) w in
          (case find_owned (listBlobsFlat blobs pre) fileId userId scope of
             Inl err \<Rightarrow> (Inl err, w1)
           | Inr b \<Rightarrow>
               (Inr (), emit (StorageDelete (blob_name b))
                          (w1\<lparr>containerClient := Some (filter (\<lambda>x. blob_name x \<noteq> blob_name b) blobs)\<rparr>))))"


section \<open>The jsonwebtoken library\<close>

text \<open>
  The contract of \<open>jwt.verify(token, key, {algorithms})\<close> as the middlewares use it: the
  token must decode, its header's \<open>alg\<close> must be one of \<open>algorithms\<close>, the signature must
  verify under that algorithm and the key, and \<open>nbf\<close> and \<open>exp\<close>, when present, must be
  numbers that admit the current time. The result is the payload.
\<close>

definition JsonWebTokenError :: "string \<Rightarrow> js_error" where
  "JsonWebTokenError msg = \<lparr>err_name = ''JsonWebTokenError'', err_message = msg, statusCode = None\<rparr>"

definition verify_exp :: "env \<Rightarrow> (string \<times> jsval) list \<Rightarrow> js_error + (string \<times> jsval) list" where
  "verify_exp e pl =
     (case get_field pl ''exp'' of
        JUndefined \<Rightarrow> Inr pl
      | JNum ex \<Rightarrow>
          if clockTimestamp e \<ge> ex
          then Inl \<lparr>err_name = ''TokenExpiredError'', err_message = ''jwt expired'', statusCode = None\<rparr>
          else Inr pl
      | _ \<Rightarrow> Inl (JsonWebTokenError ''invalid exp value''))"

definition verify_nbf :: "env \<Rightarrow> (string \<times> jsval) list \<Rightarrow> js_error + (string \<times> jsval) list" where
  "verify_nbf e pl =
     (case get_field pl ''nbf'' of
        JUndefined \<Rightarrow> verify_exp e pl
      | JNum nbf \<Rightarrow>
          if nbf > clockTimestamp e
          then Inl \<lparr>err_name = ''NotBeforeError'', err_message = ''jwt not active'', statusCode = None\<rparr>
          else verify_exp e pl
      | _ \<Rightarrow> Inl (JsonWebTokenError ''invalid nbf value''))"

definition jwt_verify :: "env \<Rightarrow> string \<Rightarrow> key \<Rightarrow> jsval list \<Rightarrow> js_error + (string \<times> jsval) list" where
  "jwt_verify e token k algorithms =
     (case jwt_decode e token of
        None \<Rightarrow> Inl (JsonWebTokenError ''jwt malformed'')
      | Some d \<Rightarrow>
          (case hdr_alg d of
             JStr a \<Rightarrow>
               if JStr a \<notin> set algorithms then Inl (JsonWebTokenError ''invalid algorithm'')
               else if \<not> jws_verify e token a k then Inl (JsonWebTokenError ''invalid signature'')
               else verify_nbf e (payload d)
           | _ \<Rightarrow> Inl (JsonWebTokenError ''invalid algorithm'')))"

section \<open>JwksClient\<close>

record auth_server =
  issuer :: string
  jwksUrl :: string
  cacheTtl :: "int option"

definition defaultCacheTtl :: int where
  "defaultCacheTtl = 3600 * 1000"

text \<open>\<open>(serverConfig.cacheTtl || this.defaultCacheTtl / 1000) * 1000\<close>: the entry's life in milliseconds.\<close>

definition cacheTtl_ms :: "auth_server \<Rightarrow> int" where
  "cacheTtl_ms serverConfig =
     (case cacheTtl serverConfig of
        None \<Rightarrow> defaultCacheTtl div 1000
      | Some n \<Rightarrow> if n \<noteq> 0 then n else defaultCacheTtl div 1000) * 1000"

text \<open>The part of \<open>fetchJwks\<close> after the cache check: the fetch, the status check, the cache update.\<close>

definition refetch :: "env \<Rightarrow> string \<Rightarrow> auth_server \<Rightarrow> world \<Rightarrow> (js_error + jwks_doc) \<times> world" where
  "refetch e issuerKey serverConfig w =
     (let w1 = emit (JwksFetch (jwksUrl serverConfig)) w in
      case jwks_endpoint e (jwksUrl serverConfig) of
        Rejected err \<Rightarrow> (Inl err, w1)
      | Response st doc \<Rightarrow>
          if \<not> response_ok st
          then (Inl (Error (''Failed to fetch JWKS from '' @ jwksUrl serverConfig @ '': '' @ dec_nat st)), w1)
          else (case doc of
                  None \<Rightarrow> (Inl \<lparr>err_name = ''SyntaxError'', err_message = ''Unexpected token'', statusCode = None\<rparr>, w1)
                | Some d \<Rightarrow>
                    (Inr d, w1\<lparr>cache := (cache w1)(issuerKey \<mapsto> \<lparr>jwks = d, fetchedAt = date_now_fetched e\<rparr>)\<rparr>)))"

text \<open>The cache check: \<open>cached && (Date.now() - cached.fetchedAt) < cacheTtl\<close>.\<close>

definition cache_fresh :: "env \<Rightarrow> auth_server \<Rightarrow> cache_entry option \<Rightarrow> bool" where
  "cache_fresh e serverConfig cached =
     (case cached of None \<Rightarrow> False | Some c \<Rightarrow> date_now e - fetchedAt c < cacheTtl_ms serverConfig)"

definition fetchJwks :: "env \<Rightarrow> string \<Rightarrow> auth_server \<Rightarrow> world \<Rightarrow> (js_error + jwks_doc) \<times> world" where
  "fetchJwks e issuerKey serverConfig w =
     (if cache_fresh e serverConfig (cache w issuerKey)
      then (case cache w issuerKey of
              Some cached \<Rightarrow> (Inr (jwks cached), w)
            | None \<Rightarrow> refetch e issuerKey serverConfig w)
      else refetch e issuerKey serverConfig w)"

text \<open>\<open>this.authServers.find(s => s.issuer === iss || s.issuer === '*') || this.authServers[0]\<close>\<close>

definition select_server :: "auth_server list \<Rightarrow> jsval \<Rightarrow> auth_server option" where
  "select_server authServers iss =
     (case find (\<lambda>s. JStr (issuer s) = iss \<or> issuer s = ''*'') authServers of
        Some s \<Rightarrow> Some s
      | None \<Rightarrow> (case authServers of [] \<Rightarrow> None | s # _ \<Rightarrow> Some s))"

text \<open>Steps 4 and 5 of \<open>getSigningKey\<close>: find the key by \<open>kid\<close> and convert it.\<close>

definition lookup_key :: "env \<Rightarrow> jwks_doc \<Rightarrow> jwt \<Rightarrow> js_error + key \<times> jsval" where
  "lookup_key e doc decoded =
     (case jwks_keys doc of
        None \<Rightarrow> Inl (TypeError ''Cannot read properties of undefined (reading find)'')
      | Some ks \<Rightarrow>
          (case find (\<lambda>k. strict_eq (kid k) (hdr_kid decoded)) ks of
             None \<Rightarrow> Inl (Error (''Signing key not found for kid: '' @ js_string (hdr_kid decoded)))
           | Some k \<Rightarrow>
               (case createPublicKey e k of
                  Inl err \<Rightarrow> Inl err
                | Inr pem \<Rightarrow> Inr (pem, js_or (hdr_alg decoded) (JStr ''RS256'')))))"

definition getSigningKey :: "env \<Rightarrow> auth_server list \<Rightarrow> string \<Rightarrow> world \<Rightarrow> (js_error + key \<times> jsval) \<times> world" where
  "getSigningKey e authServers token w =
     (case jwt_decode e token of
        None \<Rightarrow> (Inl (Error ''Invalid token''), w)
      | Some decoded \<Rightarrow>
          let iss = get_field (payload decoded) ''iss'' in
          (case select_server authServers iss of
             None \<Rightarrow> (Inl (Error (''No auth server configured for issuer: '' @ js_string iss)), w)
           | Some server \<Rightarrow>
               (case fetchJwks e (issuer server) server w of
                  (Inl err, w') \<Rightarrow> (Inl err, w')
                | (Inr doc, w') \<Rightarrow> (lookup_key e doc decoded, w'))))"

section \<open>Authentication middlewares\<close>

text \<open>
  A middleware passes the request on, or answers it, or does neither because it awaits a
  promise that never settles.
\<close>

datatype outcome = Next request | Respond response | Pending

definition unauthorized :: "string \<Rightarrow> response" where
  "unauthorized msg = error_json 401 ''Unauthorized'' (JStr msg)"

text \<open>The \<open>catch\<close> block of both middlewares.\<close>

definition validation_error :: "js_error \<Rightarrow> response" where
  "validation_error err =
     (if err_name err = ''TokenExpiredError'' then unauthorized ''Token expired''
      else if err_name err = ''JsonWebTokenError'' then unauthorized ''Invalid token''
      else unauthorized ''Token validation failed'')"

text \<open>
  What both middlewares do with the verified payload: pick the user id and the tenant id and
  attach \<open>req.user = {id, tenantId, email, roles, ...decoded}\<close>.
\<close>

definition attach_user :: "(string \<times> jsval) list \<Rightarrow> request \<Rightarrow> outcome" where
  "attach_user decoded req =
     (let userId = js_or (js_or (js_or (get_field decoded ''sub'') (get_field decoded ''user_id''))
                           (get_field decoded ''userId'')) (get_field decoded ''id'')
      in if \<not> truthy userId then Respond (unauthorized ''Token missing user identifier'')
         else let tenantId = js_or (js_or (js_or (get_field decoded ''tenant_id'') (get_field decoded ''tid''))
                                      (get_field decoded ''tenant_uuid'')) JNull
              in Next (req\<lparr>user := JObj (spread [(''id'', userId), (''tenantId'', tenantId),
                                                  (''email'', get_field decoded ''email''),
                                                  (''roles'', js_or (get_field decoded ''roles'') (JArr []))]
                                                 decoded)\<rparr>))"

definition bearer_token :: "request \<Rightarrow> string option" where
  "bearer_token req =
     (case authorization req of
        None \<Rightarrow> None
      | Some authHeader \<Rightarrow>
          if authHeader = [] \<or> \<not> startsWith authHeader ''Bearer '' then None
          else Some (drop 7 authHeader))"

definition authenticateJWT :: "key \<Rightarrow> env \<Rightarrow> request \<Rightarrow> world \<Rightarrow> outcome \<times> world" where
  "authenticateJWT publicKey e req w =
     (case bearer_token req of
        None \<Rightarrow> (Respond (unauthorized ''Missing or invalid authorization header''), w)
      | Some token \<Rightarrow>
          (case jwt_verify e token publicKey [JStr ''RS256'', JStr ''ES256'', JStr ''HS256''] of
             Inl err \<Rightarrow> (Respond (validation_error err), w)
           | Inr decoded \<Rightarrow> (attach_user decoded req, w)))"

definition createAuthMiddleware ::
  "key \<Rightarrow> js_error + (env \<Rightarrow> request \<Rightarrow> world \<Rightarrow> outcome \<times> world)" where
  "createAuthMiddleware publicKey =
     (if publicKey = [] then Inl (Error ''JWT public key is required'')
      else Inr (authenticateJWT publicKey))"

definition authenticateJwks :: "auth_server list \<Rightarrow> env \<Rightarrow> request \<Rightarrow> world \<Rightarrow> outcome \<times> world" where
  "authenticateJwks authServers e req w =
     (case bearer_token req of
        None \<Rightarrow> (Respond (unauthorized ''Missing or invalid authorization header''), w)
      | Some token \<Rightarrow>
          (case getSigningKey e authServers token w of
             (Inl err, w') \<Rightarrow> (Respond (validation_error err), w')
           | (Inr (k, algorithm), w') \<Rightarrow>
               (case jwt_verify e token k [algorithm] of
                  Inl err \<Rightarrow> (Respond (validation_error err), w')
                | Inr decoded \<Rightarrow> (attach_user decoded req, w'))))"


section \<open>Authorization middleware\<close>

text \<open>\<open>x || d\<close> for an optional number and for an optional string.\<close>

definition num_or :: "nat option \<Rightarrow> nat \<Rightarrow> nat" where
  "num_or x d = (case x of None \<Rightarrow> d | Some n \<Rightarrow> if n = 0 then d else n)"

definition str_opt :: "string option \<Rightarrow> string option" where
  "str_opt x = (case x of None \<Rightarrow> None | Some s \<Rightarrow> if s = [] then None else Some s)"

definition service_unavailable :: "string \<Rightarrow> response" where
  "service_unavailable msg = error_json 503 ''Service Unavailable'' (JStr msg)"

definition file_action :: "request \<Rightarrow> string option" where
  "file_action req =
     (if req_method req = ''POST'' \<and> req_path req = ''/upload'' then Some ''upload''
      else if req_method req = ''GET'' \<and> startsWith (req_path req) ''/files/'' then Some ''download''
      else if req_method req = ''DELETE'' \<and> startsWith (req_path req) ''/files/'' then Some ''delete''
      else None)"

definition oracle_body :: "env \<Rightarrow> string \<Rightarrow> request \<Rightarrow> jsval" where
  "oracle_body e action req =
     JObj ([(''action'', JStr action)]
           @ (if (action = ''download'' \<or> action = ''delete'') \<and> truthy (params_id req)
              then [(''file_id'', params_id req)] else [])
           @ (if action = ''upload''
              then [(''resource_type'', js_or (opt_prop (req_body req) ''resource_type'') JNull),
                    (''resource_id'', if truthy (opt_prop (req_body req) ''resource_id'')
                                      then parseInt e (opt_prop (req_body req) ''resource_id'') else JNull)]
              else []))"

text \<open>
  What the middleware does once \<open>fetch\<close> has resolved with a response and the body read has
  settled (\<open>None\<close> when \<open>response.json()\<close> rejected). A TypeError (\<open>.data\<close>
  read from a \<open>null\<close> body) or a rejected \<open>response.json()\<close> lands in the \<open>catch\<close> block, as
  a rejected \<open>fetch\<close> does. \<open>errorBody\<close> and \<open>authResult\<close> are never \<open>null\<close> once \<open>.data\<close> has been
  read, so reading their properties does not throw.
\<close>

definition on_response :: "nat \<Rightarrow> jsval option \<Rightarrow> request \<Rightarrow> outcome" where
  "on_response st parsed req =
     (if \<not> response_ok st
      then (let errorRaw = (case parsed of None \<Rightarrow> JObj [] | Some v \<Rightarrow> v) in
            case get_prop errorRaw ''data'' of
              None \<Rightarrow> Respond (service_unavailable ''Authorization service unavailable'')
            | Some d \<Rightarrow>
                let errorBody = js_or d errorRaw in
                if st = 403
                then Respond (error_json 403 ''Forbidden''
                       (js_or (js_or (opt_prop errorBody ''reason'') (opt_prop errorRaw ''message''))
                          (JStr ''Access denied'')))
                else Respond (service_unavailable ''Authorization service returned an error''))
      else (case parsed of
              None \<Rightarrow> Respond (service_unavailable ''Authorization service unavailable'')
            | Some raw \<Rightarrow>
                (case get_prop raw ''data'' of
                   None \<Rightarrow> Respond (service_unavailable ''Authorization service unavailable'')
                 | Some d \<Rightarrow>
                     let authResult = js_or d raw in
                     if \<not> truthy (opt_prop authResult ''allowed'')
                     then Respond (error_json 403 ''Forbidden''
                            (js_or (opt_prop authResult ''reason'') (JStr ''Access denied'')))
                     else Next (req\<lparr>fileScope := js_or (opt_prop authResult ''scope'') (JStr ''user'')\<rparr>))))"

definition createAuthorizationMiddleware ::
  "string option \<Rightarrow> nat \<Rightarrow> env \<Rightarrow> request \<Rightarrow> world \<Rightarrow> outcome \<times> world" where
  "createAuthorizationMiddleware authorizationUrl timeout e req w =
     (case authorizationUrl of
        None \<Rightarrow> (Next (req\<lparr>fileScope := JStr ''user''\<rparr>), w)
      | Some url \<Rightarrow>
          if url = [] then (Next (req\<lparr>fileScope := JStr ''user''\<rparr>), w)
          else (case file_action req of
                  None \<Rightarrow> (Next (req\<lparr>fileScope := JStr ''user''\<rparr>), w)
                | Some action \<Rightarrow>
                    let reqBody = oracle_body e action req;
                        authHeader = str_opt (authorization req);
                        w1 = emit (OracleFetch url reqBody authHeader) w
                    in (case oracle_call e url timeout reqBody authHeader of
                          TimerFires \<Rightarrow>
                            (Respond (service_unavailable ''Authorization service unavailable''),
                             emit OracleAbort w1)
                        | Settles (FetchRejected err) \<Rightarrow>
                            (Respond (service_unavailable ''Authorization service unavailable''), w1)
                        | Settles (FetchResolved st ReadStalls) \<Rightarrow> (Pending, w1)
                        | Settles (FetchResolved st ReadRejected) \<Rightarrow> (on_response st None req, w1)
                        | Settles (FetchResolved st (Parsed t raw)) \<Rightarrow>
                            (on_response st (Some raw) req, w1))))"

section \<open>Configuration\<close>

text \<open>
  The configuration of \<open>createFilesServer\<close>, each field after its \<open>config.x || process.env.X\<close>
  default has been taken.
\<close>

record config =
  authServers :: "auth_server list option"
  jwksUrl_opt :: "string option"
  jwtPublicKey :: "string option"
  jwksCacheTtl :: "int option"
  authorizationUrl_opt :: "string option"
  authorizationTimeout :: "nat option"
  maxFileSize :: "nat option"
  rateLimitWindowMs :: "nat option"
  rateLimitUpload :: "nat option"
  rateLimitDownload :: "nat option"

section \<open>Rate limiters\<close>

definition keyGenerator :: "request \<Rightarrow> jsval" where
  "keyGenerator req = js_or (opt_prop (user req) ''id'') (JStr (req_ip req))"

definition rateLimit :: "nat \<Rightarrow> nat \<Rightarrow> string \<Rightarrow> env \<Rightarrow> request \<Rightarrow> world \<Rightarrow> outcome \<times> world" where
  "rateLimit windowMs mx msg e req w =
     (if limiter_admits e windowMs mx (keyGenerator req) then (Next req, w)
      else (Respond (error_json 429 ''Too Many Requests'' (JStr msg)), w))"

definition uploadLimiter :: "config \<Rightarrow> env \<Rightarrow> request \<Rightarrow> world \<Rightarrow> outcome \<times> world" where
  "uploadLimiter cfg =
     rateLimit (num_or (rateLimitWindowMs cfg) (60 * 1000)) (num_or (rateLimitUpload cfg) 10)
       ''Upload rate limit exceeded. Try again later.''"

definition downloadLimiter :: "config \<Rightarrow> env \<Rightarrow> request \<Rightarrow> world \<Rightarrow> outcome \<times> world" where
  "downloadLimiter cfg =
     rateLimit (num_or (rateLimitWindowMs cfg) (60 * 1000)) (num_or (rateLimitDownload cfg) 60)
       ''Rate limit exceeded. Try again later.''"

section \<open>Routes\<close>

text \<open>\<open>/^[0-9a-f]{8}-[0-9a-f]{4}-[0-9a-f]{4}-[0-9a-f]{4}-[0-9a-f]{12}$/i\<close>\<close>

definition is_hex :: "char \<Rightarrow> bool" where
  "is_hex c = (c \<in> set ''0123456789abcdefABCDEF'')"

fun hex_run :: "nat \<Rightarrow> string \<Rightarrow> string option" where
  "hex_run 0 s = Some s"
| "hex_run (Suc n) [] = None"
| "hex_run (Suc n) (c # cs) = (if is_hex c then hex_run n cs else None)"

fun match_groups :: "nat list \<Rightarrow> string \<Rightarrow> bool" where
  "match_groups [] s = False"
| "match_groups [n] s = (hex_run n s = Some [])"
| "match_groups (n # ns) s =
     (case hex_run n s of
        None \<Rightarrow> False
      | Some [] \<Rightarrow> False
      | Some (c # r) \<Rightarrow> c = CHR ''-'' \<and> match_groups ns r)"

definition uuidRegex_test :: "string \<Rightarrow> bool" where
  "uuidRegex_test fileId = match_groups [8, 4, 4, 4, 12] fileId"

definition bad_request :: "string \<Rightarrow> response" where
  "bad_request msg = error_json 400 ''Bad Request'' (JStr msg)"

definition internal_error :: "string \<Rightarrow> response" where
  "internal_error msg = error_json 500 ''Internal Server Error'' (JStr msg)"

text \<open>The \<open>catch\<close> block of the download and the delete handler.\<close>

definition storage_failure :: "string \<Rightarrow> js_error \<Rightarrow> response" where
  "storage_failure what err =
     (if err_message err = ''File not found'' then error_json 404 ''Not Found'' (JStr ''File not found'')
      else if startsWith (err_message err) ''Unauthorized:''
      then error_json 403 ''Forbidden'' (JStr (err_message err))
      else if statusCode err = Some 503
      then error_json 503 ''Service Unavailable'' (JStr (err_message err))
      else internal_error what)"

text \<open>
  The handlers read \<open>req.user.id\<close> first, which throws a TypeError into their \<open>catch\<close> block
  when \<open>req.user\<close> is not set; \<open>req.user.tenantId\<close> cannot throw after that. The upload, the
  download and the list handler call the storage without a scope argument.
\<close>

definition healthRouter :: "env \<Rightarrow> request \<Rightarrow> world \<Rightarrow> outcome \<times> world" where
  "healthRouter e req w =
     (case route e ''GET'' ''/health'' (req_method req) (req_path req) of
        None \<Rightarrow> (Next req, w)
      | Some _ \<Rightarrow>
          (Respond (Json 200 (JObj [(''status'', JStr ''healthy''), (''service'', JStr ''files-service''),
                                     (''timestamp'', JStr (iso_now e))])), w))"

definition upload_handler :: "env \<Rightarrow> request \<Rightarrow> world \<Rightarrow> response \<times> world" where
  "upload_handler e req w =
     (case req_file req of
        None \<Rightarrow> (bad_request ''No file uploaded'', w)
      | Some f \<Rightarrow>
          (case get_prop (user req) ''id'' of
             None \<Rightarrow> (internal_error ''Failed to upload file'', w)
           | Some userId \<Rightarrow>
               let tenantId = opt_prop (user req) ''tenantId'' in
               (case uploadFile e tenantId userId (file_len f) (originalname f) (mimetype f) JUndefined w of
                  (Inl err, w') \<Rightarrow>
                    (if statusCode err = Some 503
                     then error_json 503 ''Service Unavailable'' (JStr (err_message err))
                     else internal_error ''Failed to upload file'', w')
                | (Inr m, w') \<Rightarrow>
                    (Json 201 (JObj [(''success'', JBool True),
                       (''file'', JObj ([(''id'', JStr (up_fileId m)), (''name'', JStr (up_originalFilename m)),
                                         (''contentType'', JStr (up_contentType m)),
                                         (''size'', JNum (int (up_size m))),
                                         (''uploadedAt'', JStr (up_uploadedAt m))]
                                        @ (if truthy tenantId then [(''tenantId'', tenantId)] else [])))]),
                     w'))))"

text \<open>
  \<open>upload.single('file')\<close> runs before the handler; a file over the limit goes to the
  application's error handler.
\<close>

definition uploadRouter :: "nat \<Rightarrow> env \<Rightarrow> request \<Rightarrow> world \<Rightarrow> outcome \<times> world" where
  "uploadRouter limit e req w =
     (case route e ''POST'' ''/upload'' (req_method req) (req_path req) of
        None \<Rightarrow> (Next req, w)
      | Some _ \<Rightarrow>
          if (case req_file req of None \<Rightarrow> False | Some f \<Rightarrow> file_len f > limit)
          then (Respond (internal_error ''An unexpected error occurred''), w)
          else (case upload_handler e req w of (r, w') \<Rightarrow> (Respond r, w')))"

definition download_handler :: "string \<Rightarrow> request \<Rightarrow> world \<Rightarrow> response \<times> world" where
  "download_handler fileId req w =
     (case get_prop (user req) ''id'' of
        None \<Rightarrow> (internal_error ''Failed to download file'', w)
      | Some userId \<Rightarrow>
          let tenantId = opt_prop (user req) ''tenantId'' in
          if \<not> uuidRegex_test fileId then (bad_request ''Invalid file ID format'', w)
          else (case downloadFile fileId tenantId userId JUndefined w of
                  (Inl err, w') \<Rightarrow> (storage_failure ''Failed to download file'' err, w')
                | (Inr r, w') \<Rightarrow> (r, w')))"

definition downloadRouter :: "env \<Rightarrow> request \<Rightarrow> world \<Rightarrow> outcome \<times> world" where
  "downloadRouter e req w =
     (case route e ''GET'' ''/files/:id'' (req_method req) (req_path req) of
        None \<Rightarrow> (Next req, w)
      | Some fileId \<Rightarrow>
          (case download_handler fileId (req\<lparr>params_id := JStr fileId\<rparr>) w of (r, w') \<Rightarrow> (Respond r, w')))"

definition list_handler :: "request \<Rightarrow> world \<Rightarrow> response \<times> world" where
  "list_handler req w =
     (case get_prop (user req) ''id'' of
        None \<Rightarrow> (internal_error ''Failed to list files'', w)
      | Some userId \<Rightarrow>
          (case listFiles (opt_prop (user req) ''tenantId'') userId JUndefined w of
             (Inl err, w') \<Rightarrow> (internal_error ''Failed to list files'', w')
           | (Inr files, w') \<Rightarrow>
               (Json 200 (JObj [(''success'', JBool True), (''count'', JNum (int (length files))),
                                (''files'', JArr files)]), w')))"

definition listRouter :: "env \<Rightarrow> request \<Rightarrow> world \<Rightarrow> outcome \<times> world" where
  "listRouter e req w =
     (case route e ''GET'' ''/files'' (req_method req) (req_path req) of
        None \<Rightarrow> (Next req, w)
      | Some _ \<Rightarrow> (case list_handler req w of (r, w') \<Rightarrow> (Respond r, w')))"

definition delete_handler :: "string \<Rightarrow> request \<Rightarrow> world \<Rightarrow> response \<times> world" where
  "delete_handler fileId req w =
     (case get_prop (user req) ''id'' of
        None \<Rightarrow> (internal_error ''Failed to delete file'', w)
      | Some userId \<Rightarrow>
          let tenantId = opt_prop (user req) ''tenantId'';
              scope = js_or (fileScope req) (JStr ''user'')
          in if \<not> uuidRegex_test fileId then (bad_request ''Invalid file ID format'', w)
             else (case deleteFile fileId tenantId userId scope w of
                     (Inl err, w') \<Rightarrow> (storage_failure ''Failed to delete file'' err, w')
                   | (Inr _, w') \<Rightarrow>
                       (Json 200 (JObj [(''success'', JBool True),
                                        (''message'', JStr ''File deleted successfully'')]), w')))"

definition deleteRouter :: "env \<Rightarrow> request \<Rightarrow> world \<Rightarrow> outcome \<times> world" where
  "deleteRouter e req w =
     (case route e ''DELETE'' ''/files/:id'' (req_method req) (req_path req) of
        None \<Rightarrow> (Next req, w)
      | Some fileId \<Rightarrow>
          (case delete_handler fileId (req\<lparr>params_id := JStr fileId\<rparr>) w of (r, w') \<Rightarrow> (Respond r, w')))"

section \<open>The files server\<close>

definition resolveAuthMiddleware :: "config \<Rightarrow> env \<Rightarrow> request \<Rightarrow> world \<Rightarrow> outcome \<times> world" where
  "resolveAuthMiddleware cfg =
     (let ttl = (case jwksCacheTtl cfg of None \<Rightarrow> 3600 | Some n \<Rightarrow> if n = 0 then 3600 else n) in
      case authServers cfg of
        Some servers \<Rightarrow> authenticateJwks (map (\<lambda>s. s\<lparr>cacheTtl := Some ttl\<rparr>) servers)
      | None \<Rightarrow>
          (case str_opt (jwksUrl_opt cfg) of
             Some url \<Rightarrow> authenticateJwks [\<lparr>issuer = ''*'', jwksUrl = url, cacheTtl = Some ttl\<rparr>]
           | None \<Rightarrow>
               (case str_opt (jwtPublicKey cfg) of
                  Some k \<Rightarrow> authenticateJWT k
                | None \<Rightarrow>
                    (\<lambda>e req w. (Respond (service_unavailable ''Authentication not configured''), w)))))"

text \<open>
  A stack of middlewares and routers: each one either answers or passes the request on.
  Every \<open>app.use\<close> of \<open>createFilesServer\<close> is mounted at the root, so a request walks
  through them in the order they are registered; a router whose route does not match passes
  the request on. The CORS, body-parsing and logging middlewares registered ahead of the
  routes are left out. The server's answer is \<open>None\<close> when a middleware stays pending.
\<close>

fun run_stack ::
  "(env \<Rightarrow> request \<Rightarrow> world \<Rightarrow> outcome \<times> world) list \<Rightarrow> env \<Rightarrow> request \<Rightarrow> world \<Rightarrow> outcome \<times> world" where
  "run_stack [] e req w = (Next req, w)"
| "run_stack (m # ms) e req w =
     (case m e req w of
        (Respond r, w') \<Rightarrow> (Respond r, w')
      | (Pending, w') \<Rightarrow> (Pending, w')
      | (Next req', w') \<Rightarrow> run_stack ms e req' w')"

definition createFilesServer :: "config \<Rightarrow> env \<Rightarrow> request \<Rightarrow> world \<Rightarrow> response option \<times> world" where
  "createFilesServer cfg e req w =
     (let authenticate = resolveAuthMiddleware cfg;
          authorize = createAuthorizationMiddleware (authorizationUrl_opt cfg)
                        (num_or (authorizationTimeout cfg) 3000)
      in case run_stack
                [healthRouter,
                 authenticate, authorize, uploadLimiter cfg,
                   uploadRouter (num_or (maxFileSize cfg) (100 * 1024 * 1024)),
                 authenticate, authorize, downloadLimiter cfg, downloadRouter,
                 authenticate, downloadLimiter cfg, listRouter,
                 authenticate, authorize, downloadLimiter cfg, deleteRouter]
                e req w of
           (Respond r, w') \<Rightarrow> (Some r, w')
         | (Pending, w') \<Rightarrow> (None, w')
         | (Next _, w') \<Rightarrow>
             (Some (error_json 404 ''Not Found'' (JStr ''The requested endpoint does not exist'')), w'))"

section \<open>Selection in the specification's words\<close>

text \<open>
  The selection as the specification words it: the entry whose issuer equals the token's
  issuer claim, falling back to a wildcard entry, then to the first configured entry.
\<close>

definition select_server_spec :: "auth_server list \<Rightarrow> jsval \<Rightarrow> auth_server option" where
  "select_server_spec servers iss =
     (case find (\<lambda>s. JStr (issuer s) = iss) servers of
        Some s \<Rightarrow> Some s
      | None \<Rightarrow>
          (case find (\<lambda>s. issuer s = ''*'') servers of
             Some s \<Rightarrow> Some s
           | None \<Rightarrow> (case servers of [] \<Rightarrow> None | s # _ \<Rightarrow> Some s)))"

text \<open>A wildcard entry is configured before the first entry of the token's issuer.\<close>

fun wildcard_first :: "auth_server list \<Rightarrow> jsval \<Rightarrow> bool" where
  "wildcard_first [] iss = False"
| "wildcard_first (s # ss) iss =
     (if JStr (issuer s) = iss then False
      else if issuer s = ''*'' then find (\<lambda>x. JStr (issuer x) = iss) ss \<noteq> None
      else wildcard_first ss iss)"

section \<open>A concrete deployment\<close>

text \<open>
  One issuer \<open>https://a\<close> publishing the key \<open>k1\<close>; three tokens signed with it, two under
  RS256 and \<open>tok-rs512\<close> under RS512, each signature verifying under its own algorithm only;
  an oracle that allows with tenant scope; an initialised empty container.
\<close>

definition jwk1 :: jwk where
  "jwk1 = \<lparr>kid = JStr ''k1'', material = ''rsa-public-1''\<rparr>"

definition token_of :: "string \<Rightarrow> jwt option" where
  "token_of t =
     (if t = ''tok-u1'' then Some \<lparr>hdr_alg = JStr ''RS256'', hdr_kid = JStr ''k1'',
          payload = [(''iss'', JStr ''https://a''), (''sub'', JStr ''u1''), (''tenant_id'', JStr ''t1'')]\<rparr>
      else if t = ''tok-rs512'' then Some \<lparr>hdr_alg = JStr ''RS512'', hdr_kid = JStr ''k1'',
          payload = [(''iss'', JStr ''https://a''), (''sub'', JStr ''u1'')]\<rparr>
      else if t = ''tok-sub-id'' then Some \<lparr>hdr_alg = JStr ''RS256'', hdr_kid = JStr ''k1'',
          payload = [(''iss'', JStr ''https://a''), (''sub'', JStr ''u1''), (''id'', JStr ''u2'')]\<rparr>
      else None)"

definition env0 :: env where
  "env0 = \<lparr>jwt_decode = token_of,
            jws_verify = (\<lambda>t a k. k = ''pem:rsa-public-1''
                            \<and> a = (if t = ''tok-rs512'' then ''RS512'' else ''RS256'')),
            clockTimestamp = 1000,
            createPublicKey = (\<lambda>k. Inr (''pem:'' @ material k)),
            date_now = 1000000,
            date_now_fetched = 1000040,
            jwks_endpoint = (\<lambda>url. if url = ''https://a/jwks''
                                     then Response 200 (Some \<lparr>jwks_keys = Some [jwk1]\<rparr>)
                                     else Response 500 None),
            oracle_call = (\<lambda>url t b h. Settles (FetchResolved 200
                             (Parsed 20 (JObj [(''allowed'', JBool True), (''scope'', JStr ''tenant'')])))),
            parseInt = (\<lambda>v. v),
            route = (\<lambda>m pat rm rp.
                       if m \<noteq> rm then None
                       else if pat = ''/files/:id''
                       then (if startsWith rp ''/files/'' \<and> length rp > 7 then Some (drop 7 rp) else None)
                       else if pat = rp then Some [] else None),
            limiter_admits = (\<lambda>win mx k. True),
            uuidv4 = ''123e4567-e89b-42d3-a456-426614174000'',
            iso_now = ''2026-02-07T12:00:00.000Z''\<rparr>"

definition hung_oracle :: env where
  "hung_oracle = env0\<lparr>oracle_call := (\<lambda>url t b h. TimerFires)\<rparr>"

text \<open>
  Three more oracles, each answering with status and headers before the timer fires: one
  whose body, an allow, is complete 200 ms after the call was started; one whose body never
  arrives; one that answers 403 with a body that cannot be read.
\<close>

definition late_oracle :: env where
  "late_oracle = env0\<lparr>oracle_call := (\<lambda>url t b h. Settles (FetchResolved 200
                    (Parsed 200 (JObj [(''allowed'', JBool True), (''scope'', JStr ''tenant'')]))))\<rparr>"

definition stalled_oracle :: env where
  "stalled_oracle = env0\<lparr>oracle_call := (\<lambda>url t b h. Settles (FetchResolved 200 ReadStalls))\<rparr>"

definition unreadable_403 :: env where
  "unreadable_403 = env0\<lparr>oracle_call := (\<lambda>url t b h. Settles (FetchResolved 403 ReadRejected))\<rparr>"

definition failing_endpoint :: env where
  "failing_endpoint = env0\<lparr>jwks_endpoint := (\<lambda>url. Response 503 None)\<rparr>"

definition world0 :: world where
  "world0 = \<lparr>cache = Map.empty, isConfigured = True, containerClient = Some [], trace = []\<rparr>"

definition request0 :: request where
  "request0 = \<lparr>req_method = ''GET'', req_path = ''/files'', authorization = Some ''Bearer tok-u1'',
                req_body = JUndefined, req_ip = ''10.0.0.1'', req_file = None,
                params_id = JUndefined, user = JUndefined, fileScope = JUndefined\<rparr>"

definition delete_request :: request where
  "delete_request = request0\<lparr>req_method := ''DELETE'', req_path := ''/files/not-a-uuid''\<rparr>"

definition blob_u2 :: blob where
  "blob_u2 = \<lparr>blob_name = ''t1/u1/f1.txt'',
              metadata = Some [''file_id'' \<mapsto> ''f1'', ''user_id'' \<mapsto> ''u2''],
              contentLength = 3\<rparr>"

definition server_a :: auth_server where
  "server_a = \<lparr>issuer = ''https://a'', jwksUrl = ''https://a/jwks'', cacheTtl = Some 60\<rparr>"

definition server_any :: auth_server where
  "server_any = \<lparr>issuer = ''*'', jwksUrl = ''https://fallback/jwks'', cacheTtl = None\<rparr>"

definition fresh_world :: world where
  "fresh_world = world0\<lparr>cache := [''https://a'' \<mapsto> \<lparr>jwks = \<lparr>jwks_keys = Some []\<rparr>, fetchedAt = 990000\<rparr>]\<rparr>"

definition stale_world :: world where
  "stale_world = world0\<lparr>cache := [''https://a'' \<mapsto> \<lparr>jwks = \<lparr>jwks_keys = Some []\<rparr>, fetchedAt = 0\<rparr>]\<rparr>"

definition config0 :: config where
  "config0 = \<lparr>authServers = Some [server_a], jwksUrl_opt = None, jwtPublicKey = None,
               jwksCacheTtl = None, authorizationUrl_opt = Some ''http://api:9100/files/authorize'',
               authorizationTimeout = None, maxFileSize = None, rateLimitWindowMs = None,
               rateLimitUpload = None, rateLimitDownload = None\<rparr>"

definition oracle_url :: string where
  "oracle_url = ''http://api:9100/files/authorize''"

definition rs512_request :: request where
  "rs512_request = request0\<lparr>authorization := Some ''Bearer tok-rs512''\<rparr>"

definition sub_id_request :: request where
  "sub_id_request = request0\<lparr>authorization := Some ''Bearer tok-sub-id''\<rparr>"

text \<open>\<open>req.user\<close> as the authentication middleware attaches it for the token \<open>tok-u1\<close>.\<close>

definition user_u1 :: jsval where
  "user_u1 = JObj [(''id'', JStr ''u1''), (''tenantId'', JStr ''t1''), (''email'', JUndefined),
                   (''roles'', JArr []), (''iss'', JStr ''https://a''), (''sub'', JStr ''u1''),
                   (''tenant_id'', JStr ''t1'')]"

text \<open>A delete request for \<open>/files/not-a-uuid\<close> carrying the token \<open>tok-u1\<close>, whatever the middlewares have attached.\<close>

definition bad_delete :: "request \<Rightarrow> bool" where
  "bad_delete r \<longleftrightarrow> req_method r = ''DELETE'' \<and> req_path r = ''/files/not-a-uuid''
     \<and> authorization r = Some ''Bearer tok-u1'' \<and> params_id r = JUndefined"

section \<open>Path construction\<close>

text \<open>
  C8. Scope \<open>tenant\<close> gives the prefix \<open>tenantId/shared/\<close>, or \<open>shared/\<close> when the tenant id is
  absent (\<open>null\<close>, \<open>undefined\<close> or empty); scope \<open>user\<close> gives \<open>tenantId/subjectId/\<close>, or
  \<open>subjectId/\<close> when the tenant id is absent. Identity \<open>u1\<close> of tenant \<open>t1\<close> gets \<open>t1/u1/\<close>
  under user scope and \<open>t1/shared/\<close> under tenant scope. On an initialised storage, an
  upload for a subject id that is a string and a tenant id that is a string or absent
  succeeds, and the blob is named by that prefix followed by the file id and the extension.
\<close>

theorem scope_prefix_paths:
  "scope_prefix (JStr ''tenant'') (JStr (c # t)) (JStr u) = (c # t) @ ''/shared/''
   \<and> scope_prefix (JStr ''user'') (JStr (c # t)) (JStr u) = (c # t) @ ''/'' @ u @ ''/''
   \<and> (\<forall>absent \<in> {JNull, JUndefined, JStr []}.
        scope_prefix (JStr ''tenant'') absent (JStr u) = ''shared/''
        \<and> scope_prefix (JStr ''user'') absent (JStr u) = u @ ''/'')
   \<and> scope_prefix (JStr ''user'') (JStr ''t1'') (JStr ''u1'') = ''t1/u1/''
   \<and> scope_prefix (JStr ''tenant'') (JStr ''t1'') (JStr ''u1'') = ''t1/shared/''
   \<and> (\<forall>scope \<in> {JStr ''tenant'', JStr ''user''}.
        \<forall>tenantId \<in> {JNull, JUndefined, JStr tid}.
        isConfigured w \<and> containerClient w \<noteq> None \<longrightarrow>
        (\<exists>m. fst (uploadFile e tenantId (JStr u) n fname ctype scope w) = Inr m
             \<and> up_blobName m = scope_prefix scope tenantId (JStr u) @ uuidv4 e @ ''.'' @ extension fname))"
  by (auto simp add: scope_prefix_def uploadFile_def default_scope_def metadata_string_def
      js_or_def Let_def)

theorem scope_prefix_paths_witness:
  "scope_prefix (JStr ''tenant'') JNull (JStr ''u1'') = ''shared/''
   \<and> scope_prefix (JStr ''user'') JNull (JStr ''u1'') = ''u1/''
   \<and> isConfigured world0 \<and> containerClient world0 \<noteq> None
   \<and> (\<exists>m. fst (uploadFile env0 (JStr ''t1'') (JStr ''u1'') 3 ''a.txt'' ''text/plain'' (JStr ''user'') world0)
             = Inr m
          \<and> up_blobName m = ''t1/u1/123e4567-e89b-42d3-a456-426614174000.txt'')"
  using scope_prefix_paths [of "CHR ''t''" "''1''" "''u1''" "''t1''" world0 env0 3 "''a.txt''" "''text/plain''"]
  by (simp add: scope_prefix_def world0_def env0_def extension_def)

section \<open>Ownership\<close>

lemma find_owned_found:
  "find (has_file_id fileId) bs = Some b \<Longrightarrow>
   find_owned bs fileId userId scope =
     (if scope = JStr ''user'' \<and> stored_owner b \<noteq> userId
      then Inl (Error ''Unauthorized: File belongs to different user'') else Inr b)"
  by (induction bs) (auto simp: has_file_id_def stored_owner_def split: option.splits if_splits)

lemma find_owned_missing:
  "find (has_file_id fileId) bs = None \<Longrightarrow> find_owned bs fileId userId scope = Inl (Error ''File not found'')"
  by (induction bs) (auto simp: has_file_id_def split: option.splits if_splits)

text \<open>
  C3. When the requested file is found under the prefix: for scope \<open>user\<close> with a stored
  owner other than the requesting user, \<open>deleteFile\<close> and \<open>downloadFile\<close> fail with the
  Unauthorized error and the container is unchanged, and the handlers answer that error with
  403 where File-not-found gets 404; for scope \<open>tenant\<close>, whoever the stored owner is (and for
  scope \<open>user\<close> with the owner's own file), both succeed.
\<close>

theorem ownership_check:
  assumes conf: "isConfigured w" and init: "containerClient w = Some blobs"
    and found: "find (has_file_id fileId) (listBlobsFlat blobs (scope_prefix scope tenantId userId)) = Some b"
  shows "(scope = JStr ''user'' \<and> stored_owner b \<noteq> userId \<longrightarrow>
            fst (deleteFile fileId tenantId userId scope w)
              = Inl (Error ''Unauthorized: File belongs to different user'')
          \<and> containerClient (snd (deleteFile fileId tenantId userId scope w)) = Some blobs
          \<and> fst (downloadFile fileId tenantId userId scope w)
              = Inl (Error ''Unauthorized: File belongs to different user'')
          \<and> storage_failure what (Error ''Unauthorized: File belongs to different user'')
              = error_json 403 ''Forbidden'' (JStr ''Unauthorized: File belongs to different user'')
          \<and> storage_failure what (Error ''File not found'')
              = error_json 404 ''Not Found'' (JStr ''File not found''))
       \<and> (scope = JStr ''user'' \<and> stored_owner b = userId \<or> scope = JStr ''tenant'' \<longrightarrow>
            fst (deleteFile fileId tenantId userId scope w) = Inr ()
          \<and> containerClient (snd (deleteFile fileId tenantId userId scope w))
              = Some (filter (\<lambda>x. blob_name x \<noteq> blob_name b) blobs)
          \<and> (\<exists>r. fst (downloadFile fileId tenantId userId scope w) = Inr r))"
  using conf init find_owned_found [OF found, of userId scope]
  by (auto simp: deleteFile_def downloadFile_def default_scope_def Let_def emit_def
      storage_failure_def Error_def startsWith_def error_json_def)

theorem ownership_check_witness:
  "isConfigured (world0\<lparr>containerClient := Some [blob_u2]\<rparr>)
   \<and> find (has_file_id ''f1'') (listBlobsFlat [blob_u2] (scope_prefix (JStr ''user'') (JStr ''t1'') (JStr ''u1'')))
       = Some blob_u2
   \<and> stored_owner blob_u2 \<noteq> JStr ''u1''
   \<and> fst (deleteFile ''f1'' (JStr ''t1'') (JStr ''u1'') (JStr ''user'') (world0\<lparr>containerClient := Some [blob_u2]\<rparr>))
       = Inl (Error ''Unauthorized: File belongs to different user'')
   \<and> fst (downloadFile ''f1'' (JStr ''t1'') (JStr ''u1'') (JStr ''user'') (world0\<lparr>containerClient := Some [blob_u2]\<rparr>))
       = Inl (Error ''Unauthorized: File belongs to different user'')"
proof -
  have f: "find (has_file_id ''f1'') (listBlobsFlat [blob_u2] (scope_prefix (JStr ''user'') (JStr ''t1'') (JStr ''u1'')))
       = Some blob_u2"
    by (simp add: listBlobsFlat_def scope_prefix_def startsWith_def blob_u2_def has_file_id_def)
  have c: "isConfigured (world0\<lparr>containerClient := Some [blob_u2]\<rparr>)"
    by (simp add: world0_def)
  have o: "stored_owner blob_u2 \<noteq> JStr ''u1''"
    by (simp add: stored_owner_def blob_u2_def)
  from ownership_check [OF c _ f, of "''Failed''"] o c f show ?thesis by simp
qed

section \<open>Authorization\<close>

text \<open>
  C7. Without an oracle URL (absent or empty) the middleware passes every request on with
  \<open>fileScope\<close> set to \<open>user\<close>, whatever the identity, method or path, and makes no outbound
  call: the state is unchanged.
\<close>

theorem no_oracle_pass_through:
  "authorizationUrl = None \<or> authorizationUrl = Some [] \<Longrightarrow>
   createAuthorizationMiddleware authorizationUrl timeout e req w
     = (Next (req\<lparr>fileScope := JStr ''user''\<rparr>), w)"
  by (auto simp: createAuthorizationMiddleware_def)

theorem no_oracle_pass_through_witness:
  "createAuthorizationMiddleware None 3000 env0 request0 world0
     = (Next (request0\<lparr>fileScope := JStr ''user''\<rparr>), world0)"
  using no_oracle_pass_through [of None 3000 env0 request0 world0] by simp

text \<open>
  C2, as the code has it. With an oracle configured and a request that maps to a file
  action: when the timer fires before \<open>fetch\<close> has settled, the outbound call is aborted right
  after it was started and the answer is 503 Service Unavailable; when \<open>fetch\<close> rejects, the
  answer is the same 503; when the response has arrived and reading its body fails, the
  answer is 503, or 403 Forbidden when the oracle's status was 403. In none of these cases
  is the request passed on.
\<close>

theorem oracle_failure_fails_closed:
  assumes url: "url \<noteq> []" and act: "file_action req = Some action"
    and call: "oracle_call e url timeout (oracle_body e action req) (str_opt (authorization req)) = race"
  shows "(race = TimerFires \<longrightarrow>
            fst (createAuthorizationMiddleware (Some url) timeout e req w)
              = Respond (error_json 503 ''Service Unavailable'' (JStr ''Authorization service unavailable''))
            \<and> trace (snd (createAuthorizationMiddleware (Some url) timeout e req w))
                = trace w @ [OracleFetch url (oracle_body e action req) (str_opt (authorization req)),
                             OracleAbort])
       \<and> (\<forall>err. race = Settles (FetchRejected err) \<longrightarrow>
            fst (createAuthorizationMiddleware (Some url) timeout e req w)
              = Respond (error_json 503 ''Service Unavailable'' (JStr ''Authorization service unavailable'')))
       \<and> (\<forall>st. race = Settles (FetchResolved st ReadRejected) \<longrightarrow>
            fst (createAuthorizationMiddleware (Some url) timeout e req w)
              = Respond (if 200 \<le> st \<and> st \<le> 299
                         then error_json 503 ''Service Unavailable'' (JStr ''Authorization service unavailable'')
                         else if st = 403
                         then error_json 403 ''Forbidden'' (JStr ''Access denied'')
                         else error_json 503 ''Service Unavailable''
                                (JStr ''Authorization service returned an error'')))
       \<and> (race = TimerFires \<or> (\<exists>err. race = Settles (FetchRejected err))
             \<or> (\<exists>st. race = Settles (FetchResolved st ReadRejected)) \<longrightarrow>
            (\<forall>req'. fst (createAuthorizationMiddleware (Some url) timeout e req w) \<noteq> Next req'))"
proof -
  have unreadable: "on_response st None req
      = Respond (if 200 \<le> st \<and> st \<le> 299
                 then error_json 503 ''Service Unavailable'' (JStr ''Authorization service unavailable'')
                 else if st = 403
                 then error_json 403 ''Forbidden'' (JStr ''Access denied'')
                 else error_json 503 ''Service Unavailable''
                        (JStr ''Authorization service returned an error''))" for st
    by (simp add: on_response_def response_ok_def service_unavailable_def js_or_def opt_prop_def Let_def)
  show ?thesis
    using url act call
    by (auto simp: createAuthorizationMiddleware_def Let_def service_unavailable_def emit_def
        unreadable)
qed

theorem oracle_failure_fails_closed_witness:
  "file_action delete_request = Some ''delete''
   \<and> oracle_call hung_oracle oracle_url 50
        (oracle_body hung_oracle ''delete'' delete_request) (str_opt (authorization delete_request)) = TimerFires
   \<and> fst (createAuthorizationMiddleware (Some oracle_url) 50 hung_oracle delete_request world0)
       = Respond (error_json 503 ''Service Unavailable'' (JStr ''Authorization service unavailable''))
   \<and> trace (snd (createAuthorizationMiddleware (Some oracle_url) 50 hung_oracle delete_request world0))
       = [OracleFetch oracle_url (JObj [(''action'', JStr ''delete'')]) (Some ''Bearer tok-u1''),
          OracleAbort]"
proof -
  have u: "oracle_url \<noteq> []" by (simp add: oracle_url_def)
  have a: "file_action delete_request = Some ''delete''"
    by (simp add: file_action_def delete_request_def request0_def startsWith_def)
  have t: "oracle_call hung_oracle oracle_url 50
        (oracle_body hung_oracle ''delete'' delete_request) (str_opt (authorization delete_request)) = TimerFires"
    by (simp add: hung_oracle_def)
  have b: "oracle_body hung_oracle ''delete'' delete_request = JObj [(''action'', JStr ''delete'')]"
    by (simp add: oracle_body_def delete_request_def request0_def)
  have h: "str_opt (authorization delete_request) = Some ''Bearer tok-u1''"
    by (simp add: str_opt_def delete_request_def request0_def)
  have w: "trace world0 = []" by (simp add: world0_def)
  from oracle_failure_fails_closed [OF u a t, of world0] a t b h w
  show ?thesis by simp
qed

text \<open>
  C2, as stated, fails. With a timeout of 50 ms and an oracle whose response arrives in time
  but whose body, an allow, is complete only after 200 ms, the request is passed on and
  nothing is aborted: the timer was cleared before the body was read. When that body never
  arrives the middleware stays pending, with no abort and no answer. And a transport failure
  while reading the body of a 403 answer gives 403 Forbidden, not a service-unavailable
  denial.
\<close>

theorem late_body_is_passed_on:
  "oracle_call late_oracle oracle_url 50 (JObj [(''action'', JStr ''delete'')]) (Some ''Bearer tok-u1'')
     = Settles (FetchResolved 200 (Parsed 200 (JObj [(''allowed'', JBool True), (''scope'', JStr ''tenant'')])))
   \<and> fst (createAuthorizationMiddleware (Some oracle_url) 50 late_oracle delete_request world0)
       = Next (delete_request\<lparr>fileScope := JStr ''tenant''\<rparr>)
   \<and> trace (snd (createAuthorizationMiddleware (Some oracle_url) 50 late_oracle delete_request world0))
       = [OracleFetch oracle_url (JObj [(''action'', JStr ''delete'')]) (Some ''Bearer tok-u1'')]
   \<and> fst (createAuthorizationMiddleware (Some oracle_url) 50 stalled_oracle delete_request world0)
       = Pending
   \<and> trace (snd (createAuthorizationMiddleware (Some oracle_url) 50 stalled_oracle delete_request world0))
       = [OracleFetch oracle_url (JObj [(''action'', JStr ''delete'')]) (Some ''Bearer tok-u1'')]
   \<and> fst (createAuthorizationMiddleware (Some oracle_url) 50 unreadable_403 delete_request world0)
       = Respond (error_json 403 ''Forbidden'' (JStr ''Access denied''))"
  by (simp add: createAuthorizationMiddleware_def oracle_url_def late_oracle_def stalled_oracle_def
      unreadable_403_def file_action_def delete_request_def request0_def startsWith_def
      oracle_body_def str_opt_def emit_def world0_def on_response_def response_ok_def
      opt_prop_def js_or_def Let_def)

section \<open>Key-set cache\<close>

lemma refetch_trace: "trace (snd (refetch e k cfg w)) = trace w @ [JwksFetch (jwksUrl cfg)]"
  by (simp add: refetch_def Let_def emit_def split: fetched.splits option.splits)

lemma refetch_success:
  "jwks_endpoint e (jwksUrl cfg) = Response st (Some d) \<Longrightarrow> response_ok st \<Longrightarrow>
   refetch e k cfg w
     = (Inr d, (emit (JwksFetch (jwksUrl cfg)) w)
                 \<lparr>cache := (cache w)(k \<mapsto> \<lparr>jwks = d, fetchedAt = date_now_fetched e\<rparr>)\<rparr>)"
  by (simp add: refetch_def Let_def emit_def)

lemma refetch_failure:
  "jwks_endpoint e (jwksUrl cfg) = Response st body \<Longrightarrow> \<not> response_ok st \<Longrightarrow>
   refetch e k cfg w
     = (Inl (Error (''Failed to fetch JWKS from '' @ jwksUrl cfg @ '': '' @ dec_nat st)),
        emit (JwksFetch (jwksUrl cfg)) w)"
  by (simp add: refetch_def Let_def)

text \<open>
  C6. With \<open>cacheTtl\<close> the configured seconds times 1000, or one hour when the field is absent
  or 0: an entry with \<open>now - fetchedAt < cacheTtl\<close> is returned from the cache, the state
  unchanged and nothing fetched. When the entry is absent or not fresh, \<open>fetchJwks\<close> fetches
  exactly once; a successful response is returned and stored under the issuer with the new
  fetch time; a non-success response is thrown as an error after that single fetch, the
  cache untouched. So nothing is fetched exactly when a fresh entry exists. In
  \<open>getSigningKey\<close> the key is then looked up in the fetched document.
\<close>

theorem fetchJwks_cache_policy:
  assumes ttl: "ttl = (case cacheTtl cfg of
                         None \<Rightarrow> 3600 * 1000
                       | Some n \<Rightarrow> if n = 0 then 3600 * 1000 else n * 1000)"
  shows "(\<forall>c. cache w k = Some c \<and> date_now e - fetchedAt c < ttl \<longrightarrow>
            fetchJwks e k cfg w = (Inr (jwks c), w))
       \<and> (cache w k = None \<or> (\<exists>c. cache w k = Some c \<and> \<not> date_now e - fetchedAt c < ttl) \<longrightarrow>
            trace (snd (fetchJwks e k cfg w)) = trace w @ [JwksFetch (jwksUrl cfg)]
            \<and> (\<forall>st d. jwks_endpoint e (jwksUrl cfg) = Response st (Some d) \<and> 200 \<le> st \<and> st \<le> 299 \<longrightarrow>
                  fst (fetchJwks e k cfg w) = Inr d
                  \<and> cache (snd (fetchJwks e k cfg w))
                      = (cache w)(k \<mapsto> \<lparr>jwks = d, fetchedAt = date_now_fetched e\<rparr>))
            \<and> (\<forall>st body. jwks_endpoint e (jwksUrl cfg) = Response st body \<and> \<not> (200 \<le> st \<and> st \<le> 299) \<longrightarrow>
                  fetchJwks e k cfg w
                    = (Inl (Error (''Failed to fetch JWKS from '' @ jwksUrl cfg @ '': '' @ dec_nat st)),
                       w\<lparr>trace := trace w @ [JwksFetch (jwksUrl cfg)]\<rparr>)))
       \<and> (trace (snd (fetchJwks e k cfg w)) = trace w
            \<longleftrightarrow> (\<exists>c. cache w k = Some c \<and> date_now e - fetchedAt c < ttl))
       \<and> (\<forall>decoded server st d.
             jwt_decode e token = Some decoded
             \<and> select_server servers (get_field (payload decoded) ''iss'') = Some server
             \<and> (cache w (issuer server) = None
                  \<or> (\<exists>c. cache w (issuer server) = Some c
                          \<and> \<not> date_now e - fetchedAt c
                                < (case cacheTtl server of
                                     None \<Rightarrow> 3600 * 1000
                                   | Some n \<Rightarrow> if n = 0 then 3600 * 1000 else n * 1000)))
             \<and> jwks_endpoint e (jwksUrl server) = Response st (Some d) \<and> 200 \<le> st \<and> st \<le> 299 \<longrightarrow>
             fst (getSigningKey e servers token w) = lookup_key e d decoded
             \<and> trace (snd (getSigningKey e servers token w)) = trace w @ [JwksFetch (jwksUrl server)])"
proof -
  have life: "cacheTtl_ms s = (case cacheTtl s of
                                 None \<Rightarrow> 3600 * 1000
                               | Some n \<Rightarrow> if n = 0 then 3600 * 1000 else n * 1000)" for s
    by (simp add: cacheTtl_ms_def defaultCacheTtl_def split: option.splits)
  have fresh: "cache_fresh e s (cache w i)
      \<longleftrightarrow> (\<exists>c. cache w i = Some c \<and> date_now e - fetchedAt c
                  < (case cacheTtl s of
                       None \<Rightarrow> 3600 * 1000
                     | Some n \<Rightarrow> if n = 0 then 3600 * 1000 else n * 1000))" for s i
    unfolding cache_fresh_def life by (cases "cache w i") simp_all
  have hit: "\<forall>c. cache w k = Some c \<and> date_now e - fetchedAt c < ttl \<longrightarrow>
            fetchJwks e k cfg w = (Inr (jwks c), w)"
    using fresh [of cfg k] unfolding ttl by (auto simp: fetchJwks_def)
  have stale: "\<not> cache_fresh e cfg (cache w k)"
    if "cache w k = None \<or> (\<exists>c. cache w k = Some c \<and> \<not> date_now e - fetchedAt c < ttl)"
    using that fresh [of cfg k] unfolding ttl by auto
  have miss: "fetchJwks e k cfg w = refetch e k cfg w"
    if "cache w k = None \<or> (\<exists>c. cache w k = Some c \<and> \<not> date_now e - fetchedAt c < ttl)"
    using stale [OF that] by (simp add: fetchJwks_def)
  have once: "trace (snd (fetchJwks e k cfg w)) = trace w \<longleftrightarrow>
      (\<exists>c. cache w k = Some c \<and> date_now e - fetchedAt c < ttl)"
  proof (cases "\<exists>c. cache w k = Some c \<and> date_now e - fetchedAt c < ttl")
    case True
    with hit show ?thesis by auto
  next
    case False
    then have "cache w k = None \<or> (\<exists>c. cache w k = Some c \<and> \<not> date_now e - fetchedAt c < ttl)"
      by (cases "cache w k") auto
    from miss [OF this] False show ?thesis by (simp add: refetch_trace)
  qed
  have key: "fst (getSigningKey e servers token w) = lookup_key e d decoded
             \<and> trace (snd (getSigningKey e servers token w)) = trace w @ [JwksFetch (jwksUrl server)]"
    if a: "jwt_decode e token = Some decoded
             \<and> select_server servers (get_field (payload decoded) ''iss'') = Some server
             \<and> (cache w (issuer server) = None
                  \<or> (\<exists>c. cache w (issuer server) = Some c
                          \<and> \<not> date_now e - fetchedAt c
                                < (case cacheTtl server of
                                     None \<Rightarrow> 3600 * 1000
                                   | Some n \<Rightarrow> if n = 0 then 3600 * 1000 else n * 1000)))
             \<and> jwks_endpoint e (jwksUrl server) = Response st (Some d) \<and> 200 \<le> st \<and> st \<le> 299"
    for decoded server st d
  proof -
    from a have "\<not> cache_fresh e server (cache w (issuer server))"
      using fresh [of server "issuer server"] by auto
    moreover from a have "response_ok st" by (simp add: response_ok_def)
    ultimately have "fetchJwks e (issuer server) server w
        = (Inr d, (emit (JwksFetch (jwksUrl server)) w)
                    \<lparr>cache := (cache w)(issuer server \<mapsto> \<lparr>jwks = d, fetchedAt = date_now_fetched e\<rparr>)\<rparr>)"
      using a by (simp add: fetchJwks_def refetch_success)
    with a show ?thesis by (simp add: getSigningKey_def Let_def emit_def)
  qed
  show ?thesis
  proof (intro conjI impI allI)
    fix c assume "cache w k = Some c \<and> date_now e - fetchedAt c < ttl"
    with hit show "fetchJwks e k cfg w = (Inr (jwks c), w)" by blast
  next
    assume s: "cache w k = None \<or> (\<exists>c. cache w k = Some c \<and> \<not> date_now e - fetchedAt c < ttl)"
    from miss [OF s] show "trace (snd (fetchJwks e k cfg w)) = trace w @ [JwksFetch (jwksUrl cfg)]"
      by (simp add: refetch_trace)
    {
      fix st d
      assume "jwks_endpoint e (jwksUrl cfg) = Response st (Some d) \<and> 200 \<le> st \<and> st \<le> 299"
      then have r: "refetch e k cfg w
         = (Inr d, (emit (JwksFetch (jwksUrl cfg)) w)
                     \<lparr>cache := (cache w)(k \<mapsto> \<lparr>jwks = d, fetchedAt = date_now_fetched e\<rparr>)\<rparr>)"
        by (simp add: refetch_success response_ok_def)
      from miss [OF s] r show "fst (fetchJwks e k cfg w) = Inr d" by simp
      from miss [OF s] r show "cache (snd (fetchJwks e k cfg w))
                      = (cache w)(k \<mapsto> \<lparr>jwks = d, fetchedAt = date_now_fetched e\<rparr>)"
        by (simp add: emit_def)
    }
    {
      fix st body
      assume "jwks_endpoint e (jwksUrl cfg) = Response st body \<and> \<not> (200 \<le> st \<and> st \<le> 299)"
      then have "refetch e k cfg w
         = (Inl (Error (''Failed to fetch JWKS from '' @ jwksUrl cfg @ '': '' @ dec_nat st)),
            emit (JwksFetch (jwksUrl cfg)) w)"
        by (simp add: refetch_failure response_ok_def)
      with miss [OF s] show "fetchJwks e k cfg w
                    = (Inl (Error (''Failed to fetch JWKS from '' @ jwksUrl cfg @ '': '' @ dec_nat st)),
                       w\<lparr>trace := trace w @ [JwksFetch (jwksUrl cfg)]\<rparr>)"
        by (simp add: emit_def)
    }
  next
    from once show "trace (snd (fetchJwks e k cfg w)) = trace w
            \<longleftrightarrow> (\<exists>c. cache w k = Some c \<and> date_now e - fetchedAt c < ttl)" .
  next
    fix decoded server st d
    assume a: "jwt_decode e token = Some decoded
             \<and> select_server servers (get_field (payload decoded) ''iss'') = Some server
             \<and> (cache w (issuer server) = None
                  \<or> (\<exists>c. cache w (issuer server) = Some c
                          \<and> \<not> date_now e - fetchedAt c
                                < (case cacheTtl server of
                                     None \<Rightarrow> 3600 * 1000
                                   | Some n \<Rightarrow> if n = 0 then 3600 * 1000 else n * 1000)))
             \<and> jwks_endpoint e (jwksUrl server) = Response st (Some d) \<and> 200 \<le> st \<and> st \<le> 299"
    from key [OF a] show "fst (getSigningKey e servers token w) = lookup_key e d decoded"
      and "trace (snd (getSigningKey e servers token w)) = trace w @ [JwksFetch (jwksUrl server)]"
      by simp_all
  qed
qed

theorem fetchJwks_cache_policy_witness:
  "cache fresh_world ''https://a'' = Some \<lparr>jwks = \<lparr>jwks_keys = Some []\<rparr>, fetchedAt = 990000\<rparr>
   \<and> date_now env0 - 990000 < (60 * 1000 :: int)
   \<and> fetchJwks env0 ''https://a'' server_a fresh_world = (Inr \<lparr>jwks_keys = Some []\<rparr>, fresh_world)
   \<and> cache stale_world ''https://a'' = Some \<lparr>jwks = \<lparr>jwks_keys = Some []\<rparr>, fetchedAt = 0\<rparr>
   \<and> \<not> date_now env0 - 0 < (60 * 1000 :: int)
   \<and> jwks_endpoint env0 (jwksUrl server_a) = Response 200 (Some \<lparr>jwks_keys = Some [jwk1]\<rparr>)
   \<and> trace (snd (fetchJwks env0 ''https://a'' server_a stale_world)) = [JwksFetch ''https://a/jwks'']
   \<and> fst (fetchJwks env0 ''https://a'' server_a stale_world) = Inr \<lparr>jwks_keys = Some [jwk1]\<rparr>
   \<and> cache (snd (fetchJwks env0 ''https://a'' server_a stale_world)) ''https://a''
       = Some \<lparr>jwks = \<lparr>jwks_keys = Some [jwk1]\<rparr>, fetchedAt = 1000040\<rparr>"
proof -
  have l: "(60 * 1000 :: int) = (case cacheTtl server_a of
                         None \<Rightarrow> 3600 * 1000
                       | Some n \<Rightarrow> if n = 0 then 3600 * 1000 else n * 1000)"
    by (simp add: server_a_def)
  have f: "cache fresh_world ''https://a'' = Some \<lparr>jwks = \<lparr>jwks_keys = Some []\<rparr>, fetchedAt = 990000\<rparr>"
    by (simp add: fresh_world_def world0_def)
  have s: "cache stale_world ''https://a'' = Some \<lparr>jwks = \<lparr>jwks_keys = Some []\<rparr>, fetchedAt = 0\<rparr>"
    by (simp add: stale_world_def world0_def)
  have n: "date_now env0 = 1000000" and d: "date_now_fetched env0 = 1000040"
    by (simp_all add: env0_def)
  have r: "jwks_endpoint env0 (jwksUrl server_a) = Response 200 (Some \<lparr>jwks_keys = Some [jwk1]\<rparr>)"
    by (simp add: env0_def server_a_def)
  have t: "trace stale_world = []" and u: "jwksUrl server_a = ''https://a/jwks''"
    by (simp_all add: stale_world_def world0_def server_a_def)
  from fetchJwks_cache_policy [OF l, of fresh_world "''https://a''" env0] f n
  have hit: "fetchJwks env0 ''https://a'' server_a fresh_world = (Inr \<lparr>jwks_keys = Some []\<rparr>, fresh_world)"
    by simp
  from fetchJwks_cache_policy [OF l, of stale_world "''https://a''" env0] s n r t u d
  have miss: "trace (snd (fetchJwks env0 ''https://a'' server_a stale_world)) = [JwksFetch ''https://a/jwks'']
      \<and> fst (fetchJwks env0 ''https://a'' server_a stale_world) = Inr \<lparr>jwks_keys = Some [jwk1]\<rparr>
      \<and> cache (snd (fetchJwks env0 ''https://a'' server_a stale_world)) ''https://a''
           = Some \<lparr>jwks = \<lparr>jwks_keys = Some [jwk1]\<rparr>, fetchedAt = 1000040\<rparr>"
    by simp
  from hit miss f s n r show ?thesis by simp
qed

text \<open>
  C10. When the key-set endpoint answers with a non-success status, \<open>fetchJwks\<close> leaves the
  whole cache as it was (no entry removed, overwritten or created), and, the entry being
  absent or stale, throws the fetch error.
\<close>

theorem fetchJwks_failure_keeps_cache:
  assumes "jwks_endpoint e (jwksUrl cfg) = Response st body" and "\<not> response_ok st"
  shows "cache (snd (fetchJwks e k cfg w)) = cache w
         \<and> (\<not> cache_fresh e cfg (cache w k) \<longrightarrow>
              fst (fetchJwks e k cfg w)
                = Inl (Error (''Failed to fetch JWKS from '' @ jwksUrl cfg @ '': '' @ dec_nat st)))"
  using assms
  by (auto simp: fetchJwks_def refetch_failure emit_def split: option.splits)

theorem fetchJwks_failure_keeps_cache_witness:
  "jwks_endpoint failing_endpoint (jwksUrl server_a) = Response 503 None
   \<and> \<not> response_ok 503
   \<and> \<not> cache_fresh failing_endpoint server_a (cache stale_world ''https://a'')
   \<and> cache (snd (fetchJwks failing_endpoint ''https://a'' server_a stale_world)) = cache stale_world
   \<and> fst (fetchJwks failing_endpoint ''https://a'' server_a stale_world)
       = Inl (Error ''Failed to fetch JWKS from https://a/jwks: 503'')"
proof -
  have r: "jwks_endpoint failing_endpoint (jwksUrl server_a) = Response 503 None"
    by (simp add: failing_endpoint_def)
  have k: "\<not> response_ok 503" by (simp add: response_ok_def)
  have s: "\<not> cache_fresh failing_endpoint server_a (cache stale_world ''https://a'')"
    by (simp add: cache_fresh_def stale_world_def world0_def failing_endpoint_def env0_def
        server_a_def cacheTtl_ms_def)
  have n: "dec_nat 503 = ''503''" by code_simp
  have u: "jwksUrl server_a = ''https://a/jwks''" by (simp add: server_a_def)
  from fetchJwks_failure_keeps_cache [OF r k, of "''https://a''" stale_world] r k s n u
  show ?thesis by simp
qed

section \<open>Server selection\<close>

lemma find_first_position:
  "find P xs = Some x \<Longrightarrow> \<exists>pre post. xs = pre @ x # post \<and> P x \<and> (\<forall>y\<in>set pre. \<not> P y)"
proof (induction xs)
  case Nil
  then show ?case by simp
next
  case (Cons a xs)
  show ?case
  proof (cases "P a")
    case True
    with Cons.prems have "a = x" by simp
    with True have "a # xs = [] @ x # xs \<and> P x \<and> (\<forall>y\<in>set []. \<not> P y)" by simp
    then show ?thesis by blast
  next
    case False
    with Cons.prems have "find P xs = Some x" by simp
    from Cons.IH [OF this] obtain pre post where "xs = pre @ x # post" "P x" "\<forall>y\<in>set pre. \<not> P y"
      by blast
    with False have "a # xs = (a # pre) @ x # post \<and> P x \<and> (\<forall>y\<in>set (a # pre). \<not> P y)" by simp
    then show ?thesis by blast
  qed
qed

lemma select_wildcard_first:
  "wildcard_first S iss \<Longrightarrow> \<exists>s. select_server S iss = Some s \<and> issuer s = ''*'' \<and> JStr (issuer s) \<noteq> iss"
proof (induction S)
  case Nil
  then show ?case by simp
next
  case (Cons a S)
  show ?case
  proof (cases "JStr (issuer a) = iss \<or> issuer a = ''*''")
    case True
    with Cons.prems show ?thesis by (auto simp: select_server_def split: if_splits)
  next
    case False
    with Cons.prems have "wildcard_first S iss" by simp
    from Cons.IH [OF this] obtain s where "select_server S iss = Some s" "issuer s = ''*''" "JStr (issuer s) \<noteq> iss"
      by blast
    with False show ?thesis
      by (auto simp: select_server_def split: option.splits list.splits)
  qed
qed

lemma select_agrees:
  "\<not> wildcard_first S iss \<Longrightarrow> select_server S iss = select_server_spec S iss"
proof -
  assume nw: "\<not> wildcard_first S iss"
  have k: "\<And>S. \<not> wildcard_first S iss \<Longrightarrow>
     find (\<lambda>s. JStr (issuer s) = iss \<or> issuer s = ''*'') S
       = (case find (\<lambda>s. JStr (issuer s) = iss) S of Some s \<Rightarrow> Some s | None \<Rightarrow> find (\<lambda>s. issuer s = ''*'') S)"
  proof -
    fix S show "\<not> wildcard_first S iss \<Longrightarrow>
     find (\<lambda>s. JStr (issuer s) = iss \<or> issuer s = ''*'') S
       = (case find (\<lambda>s. JStr (issuer s) = iss) S of Some s \<Rightarrow> Some s | None \<Rightarrow> find (\<lambda>s. issuer s = ''*'') S)"
      by (induction S) (auto split: option.splits if_splits)
  qed
  show ?thesis
    unfolding select_server_def select_server_spec_def k [OF nw]
    by (auto split: option.splits)
qed

text \<open>
  C5, as the code has it. The selected server is the first configured entry whose issuer
  equals the token's issuer claim or is the wildcard \<open>*\<close>; when no entry is either, it is the
  first configured entry; there is none exactly when the configured list is empty, and
  \<open>getSigningKey\<close> then throws. The selection is the specification's (exact, then wildcard,
  then first) unless a wildcard entry is configured before the first exact one, and in that
  case a wildcard entry is selected.
\<close>

theorem select_server_first_match:
  "(select_server S iss = None \<longleftrightarrow> S = [])
   \<and> (\<forall>s. select_server S iss = Some s \<longrightarrow>
         (\<exists>pre post. S = pre @ s # post \<and> (JStr (issuer s) = iss \<or> issuer s = ''*'')
             \<and> (\<forall>x\<in>set pre. JStr (issuer x) \<noteq> iss \<and> issuer x \<noteq> ''*''))
         \<or> ((\<forall>x\<in>set S. JStr (issuer x) \<noteq> iss \<and> issuer x \<noteq> ''*'') \<and> (\<exists>rest. S = s # rest)))
   \<and> (\<not> wildcard_first S iss \<longrightarrow> select_server S iss = select_server_spec S iss)
   \<and> (wildcard_first S iss \<longrightarrow>
         (\<exists>s. select_server S iss = Some s \<and> issuer s = ''*'' \<and> JStr (issuer s) \<noteq> iss))
   \<and> (\<forall>decoded. jwt_decode e token = Some decoded \<longrightarrow>
         getSigningKey e [] token w
           = (Inl (Error (''No auth server configured for issuer: ''
                           @ js_string (get_field (payload decoded) ''iss''))), w))"
proof (intro conjI allI impI)
  show "select_server S iss = None \<longleftrightarrow> S = []"
    by (auto simp: select_server_def split: option.splits list.splits)
next
  fix s assume sel: "select_server S iss = Some s"
  show "(\<exists>pre post. S = pre @ s # post \<and> (JStr (issuer s) = iss \<or> issuer s = ''*'')
             \<and> (\<forall>x\<in>set pre. JStr (issuer x) \<noteq> iss \<and> issuer x \<noteq> ''*''))
         \<or> ((\<forall>x\<in>set S. JStr (issuer x) \<noteq> iss \<and> issuer x \<noteq> ''*'') \<and> (\<exists>rest. S = s # rest))"
  proof (cases "find (\<lambda>s. JStr (issuer s) = iss \<or> issuer s = ''*'') S")
    case None
    then have "\<forall>x\<in>set S. JStr (issuer x) \<noteq> iss \<and> issuer x \<noteq> ''*''"
      by (auto simp: find_None_iff)
    moreover from None sel have "\<exists>rest. S = s # rest"
      by (auto simp: select_server_def split: list.splits)
    ultimately show ?thesis by blast
  next
    case (Some a)
    with sel have "a = s" by (simp add: select_server_def)
    with find_first_position [OF Some] show ?thesis by blast
  qed
next
  assume "\<not> wildcard_first S iss"
  then show "select_server S iss = select_server_spec S iss" by (rule select_agrees)
next
  assume "wildcard_first S iss"
  then show "\<exists>s. select_server S iss = Some s \<and> issuer s = ''*'' \<and> JStr (issuer s) \<noteq> iss"
    by (rule select_wildcard_first)
next
  fix decoded assume "jwt_decode e token = Some decoded"
  then show "getSigningKey e [] token w
           = (Inl (Error (''No auth server configured for issuer: ''
                           @ js_string (get_field (payload decoded) ''iss''))), w)"
    by (simp add: getSigningKey_def select_server_def Let_def)
qed

theorem select_server_first_match_witness:
  "select_server [server_a, server_any] (JStr ''https://a'') = Some server_a
   \<and> \<not> wildcard_first [server_a, server_any] (JStr ''https://a'')
   \<and> select_server [server_a, server_any] (JStr ''https://a'')
       = select_server_spec [server_a, server_any] (JStr ''https://a'')
   \<and> wildcard_first [server_any, server_a] (JStr ''https://a'')
   \<and> select_server [server_any, server_a] (JStr ''https://a'') = Some server_any
   \<and> jwt_decode env0 ''tok-u1'' \<noteq> None
   \<and> fst (getSigningKey env0 [] ''tok-u1'' world0)
       = Inl (Error ''No auth server configured for issuer: https://a'')"
proof -
  have a: "\<not> wildcard_first [server_a, server_any] (JStr ''https://a'')"
    by (simp add: server_a_def)
  have b: "wildcard_first [server_any, server_a] (JStr ''https://a'')"
    by (simp add: server_a_def server_any_def)
  have c: "select_server [server_a, server_any] (JStr ''https://a'') = Some server_a"
    by (simp add: select_server_def server_a_def)
  have d: "select_server [server_any, server_a] (JStr ''https://a'') = Some server_any"
    by (simp add: select_server_def server_a_def server_any_def)
  have t: "jwt_decode env0 ''tok-u1'' = Some \<lparr>hdr_alg = JStr ''RS256'', hdr_kid = JStr ''k1'',
          payload = [(''iss'', JStr ''https://a''), (''sub'', JStr ''u1''), (''tenant_id'', JStr ''t1'')]\<rparr>"
    by (simp add: env0_def token_of_def)
  from select_server_first_match [of "[server_a, server_any]" "JStr ''https://a''" env0 "''tok-u1''" world0]
       a b c d t
  show ?thesis by (simp add: get_field_def)
qed

text \<open>
  C5, as stated, fails: with the wildcard entry configured before the entry of
  \<open>https://a\<close>, a token of issuer \<open>https://a\<close> gets the wildcard entry although an exact
  match exists.
\<close>

theorem select_server_counterexample:
  "select_server [server_any, server_a] (JStr ''https://a'') = Some server_any
   \<and> select_server_spec [server_any, server_a] (JStr ''https://a'') = Some server_a
   \<and> server_any \<noteq> server_a"
  by (simp add: select_server_def select_server_spec_def server_any_def server_a_def)

section \<open>Token verification\<close>

lemmas auth_defs = bearer_token_def startsWith_def jwt_verify_def verify_nbf_def verify_exp_def
  get_field_def attach_user_def js_or_def unauthorized_def validation_error_def JsonWebTokenError_def
  error_json_def

lemmas jwks_defs = getSigningKey_def select_server_def fetchJwks_def cache_fresh_def refetch_def
  emit_def lookup_key_def strict_eq_def response_ok_def cacheTtl_ms_def defaultCacheTtl_def
  server_a_def jwk1_def world0_def Let_def

text \<open>
  With the static key the header's algorithm must be one of RS256, ES256, HS256, whatever the
  key would verify.
\<close>

lemma invalid_algorithm:
  assumes "jwt_decode e token = Some d" and "hdr_alg d \<notin> set algorithms"
  shows "jwt_verify e token k algorithms = Inl (JsonWebTokenError ''invalid algorithm'')"
  using assms by (cases "hdr_alg d") (simp_all add: jwt_verify_def)

lemma static_key_allow_list:
  assumes "bearer_token req = Some token" and "jwt_decode e token = Some d"
    and "hdr_alg d \<notin> {JStr ''RS256'', JStr ''ES256'', JStr ''HS256''}"
  shows "authenticateJWT k e req w = (Respond (unauthorized ''Invalid token''), w)"
proof -
  from assms(3) have "hdr_alg d \<notin> set [JStr ''RS256'', JStr ''ES256'', JStr ''HS256'']" by simp
  from invalid_algorithm [OF assms(2) this]
  show ?thesis
    using assms(1) by (simp add: authenticateJWT_def validation_error_def JsonWebTokenError_def)
qed

text \<open>
  With a key set the only algorithm allowed is the one the token's own header declares: any
  declared algorithm under which the signature verifies with the resolved key is accepted.
\<close>

lemma jwks_mode_trusts_header:
  assumes "bearer_token req = Some token" and "jwt_decode e token = Some d"
    and "getSigningKey e servers token w = (Inr (k, JStr a), w')"
    and "hdr_alg d = JStr a" and "jws_verify e token a k"
    and "verify_nbf e (payload d) = Inr pl"
  shows "authenticateJwks servers e req w = (attach_user pl req, w')"
  using assms by (simp add: authenticateJwks_def jwt_verify_def)

text \<open>
  C1. A token of issuer \<open>https://a\<close> whose header declares RS512 and whose signature verifies
  with the published key \<open>k1\<close>: the key-set middleware accepts it and attaches the user,
  while the static-key middleware, given the same key, rejects it as an invalid token.
\<close>

theorem jwks_accepts_undeclared_algorithm:
  "map_option hdr_alg (jwt_decode env0 ''tok-rs512'') = Some (JStr ''RS512'')
   \<and> fst (authenticateJwks [server_a] env0 rs512_request world0)
       = Next (rs512_request\<lparr>user := JObj [(''id'', JStr ''u1''), (''tenantId'', JNull),
                 (''email'', JUndefined), (''roles'', JArr []),
                 (''iss'', JStr ''https://a''), (''sub'', JStr ''u1'')]\<rparr>)
   \<and> fst (authenticateJWT ''pem:rsa-public-1'' env0 rs512_request world0)
       = Respond (unauthorized ''Invalid token'')"
  by (simp add: authenticateJwks_def authenticateJWT_def jwks_defs auth_defs rs512_request_def
      request0_def env0_def token_of_def)

theorem jwks_accepts_undeclared_algorithm_witness:
  "fst (authenticateJwks [server_a] env0 rs512_request world0)
     \<noteq> fst (authenticateJWT ''pem:rsa-public-1'' env0 rs512_request world0)"
  using jwks_accepts_undeclared_algorithm by simp

section \<open>Identity\<close>

lemma map_of_assign: "map_of (assign a k v) k' = (if k' = k then Some v else map_of a k')"
  by (induction a) auto

lemma map_of_spread:
  "distinct (map fst b) \<Longrightarrow>
   map_of (spread a b) k = (case map_of b k of Some v \<Rightarrow> Some v | None \<Rightarrow> map_of a k)"
proof (induction b arbitrary: a)
  case Nil
  then show ?case by simp
next
  case (Cons p b)
  obtain k' v' where p: "p = (k', v')" by (cases p)
  from Cons.prems p have d: "distinct (map fst b)" and n: "k' \<notin> fst ` set b" by auto
  from n have m: "map_of b k' = None" by (simp add: map_of_eq_None_iff)
  show ?case
  proof (cases "k = k'")
    case True
    with Cons.IH [OF d, of "assign a k' v'"] p m show ?thesis by (simp add: map_of_assign)
  next
    case False
    with Cons.IH [OF d, of "assign a k' v'"] p show ?thesis
      by (simp add: map_of_assign split: option.splits)
  qed
qed

lemma js_or_undefined: "truthy (js_or x JUndefined) \<Longrightarrow> js_or x JUndefined = x"
  by (simp add: js_or_def split: if_splits)

text \<open>
  The attached \<open>req.user.id\<close>, for a payload with distinct claim names: the payload's own \<open>id\<close>
  claim when it has one, since \<open>...decoded\<close> is spread after \<open>id: userId\<close>; otherwise the first
  truthy of \<open>sub\<close>, \<open>user_id\<close>, \<open>userId\<close>.
\<close>

lemma attach_user_subject:
  assumes dist: "distinct (map fst decoded)" and att: "attach_user decoded req = Next r"
  shows "get_prop (user r) ''id''
         = Some (case map_of decoded ''id'' of
                   Some v \<Rightarrow> v
                 | None \<Rightarrow> js_or (js_or (get_field decoded ''sub'') (get_field decoded ''user_id''))
                             (get_field decoded ''userId''))"
proof -
  define first3 where "first3 = js_or (js_or (get_field decoded ''sub'') (get_field decoded ''user_id''))
                             (get_field decoded ''userId'')"
  define userId where "userId = js_or first3 (get_field decoded ''id'')"
  from att have tr: "truthy userId"
    unfolding attach_user_def Let_def userId_def first3_def by (simp split: if_splits)
  from att obtain base where u: "user r = JObj (spread ((''id'', userId) # base) decoded)"
    unfolding attach_user_def Let_def userId_def first3_def by (auto split: if_splits)
  have g: "get_prop (user r) ''id''
      = Some (case map_of decoded ''id'' of Some v \<Rightarrow> v | None \<Rightarrow> userId)"
    unfolding u by (simp add: map_of_spread [OF dist] split: option.splits)
  show ?thesis
  proof (cases "map_of decoded ''id''")
    case None
    then have i: "get_field decoded ''id'' = JUndefined" by (simp add: get_field_def)
    from tr have "truthy (js_or first3 JUndefined)" unfolding userId_def i .
    then have "userId = first3" unfolding userId_def i by (rule js_or_undefined)
    with g None show ?thesis by (simp add: first3_def)
  next
    case (Some v)
    with g show ?thesis by simp
  qed
qed

text \<open>
  C4. A valid token with the claims \<open>sub = u1\<close> and \<open>id = u2\<close>: both middlewares accept it and
  attach a user whose \<open>id\<close> is \<open>u2\<close>, the last claim of the priority order, not \<open>u1\<close>.
\<close>

theorem spread_overrides_subject:
  "get_field [(''iss'', JStr ''https://a''), (''sub'', JStr ''u1''), (''id'', JStr ''u2'')] ''sub'' = JStr ''u1''
   \<and> fst (authenticateJWT ''pem:rsa-public-1'' env0 sub_id_request world0)
       = Next (sub_id_request\<lparr>user := JObj [(''id'', JStr ''u2''), (''tenantId'', JNull),
                 (''email'', JUndefined), (''roles'', JArr []),
                 (''iss'', JStr ''https://a''), (''sub'', JStr ''u1'')]\<rparr>)
   \<and> fst (authenticateJwks [server_a] env0 sub_id_request world0)
       = Next (sub_id_request\<lparr>user := JObj [(''id'', JStr ''u2''), (''tenantId'', JNull),
                 (''email'', JUndefined), (''roles'', JArr []),
                 (''iss'', JStr ''https://a''), (''sub'', JStr ''u1'')]\<rparr>)"
  by (simp add: authenticateJwks_def authenticateJWT_def jwks_defs auth_defs sub_id_request_def
      request0_def env0_def token_of_def)

theorem spread_overrides_subject_witness:
  "fst (authenticateJWT ''pem:rsa-public-1'' env0 sub_id_request world0)
     = fst (authenticateJwks [server_a] env0 sub_id_request world0)"
  using spread_overrides_subject by simp

section \<open>File id validation\<close>

lemma bad_delete_upd [simp]:
  "bad_delete (r\<lparr>user := u\<rparr>) = bad_delete r" "bad_delete (r\<lparr>fileScope := f\<rparr>) = bad_delete r"
  by (simp_all add: bad_delete_def)

lemma step_health: "bad_delete r \<Longrightarrow> healthRouter env0 r w = (Next r, w)"
  by (simp add: healthRouter_def bad_delete_def env0_def)

lemma step_auth_miss:
  "bad_delete r \<Longrightarrow> cache w ''https://a'' = None \<Longrightarrow>
   resolveAuthMiddleware config0 env0 r w
     = (Next (r\<lparr>user := user_u1\<rparr>),
        w\<lparr>trace := trace w @ [JwksFetch ''https://a/jwks''],
          cache := (cache w)(''https://a'' \<mapsto> \<lparr>jwks = \<lparr>jwks_keys = Some [jwk1]\<rparr>, fetchedAt = 1000040\<rparr>)\<rparr>)"
  by (simp add: resolveAuthMiddleware_def config0_def authenticateJwks_def bad_delete_def
      getSigningKey_def select_server_def fetchJwks_def cache_fresh_def refetch_def
      emit_def lookup_key_def strict_eq_def response_ok_def server_a_def jwk1_def Let_def
      auth_defs env0_def token_of_def user_u1_def)

lemma step_auth_hit:
  "bad_delete r \<Longrightarrow>
   cache w ''https://a'' = Some \<lparr>jwks = \<lparr>jwks_keys = Some [jwk1]\<rparr>, fetchedAt = 1000040\<rparr> \<Longrightarrow>
   resolveAuthMiddleware config0 env0 r w = (Next (r\<lparr>user := user_u1\<rparr>), w)"
  by (simp add: resolveAuthMiddleware_def config0_def authenticateJwks_def bad_delete_def
      getSigningKey_def select_server_def fetchJwks_def cache_fresh_def cacheTtl_ms_def
      lookup_key_def strict_eq_def server_a_def jwk1_def Let_def
      auth_defs env0_def token_of_def user_u1_def)

lemma step_authorize:
  "bad_delete r \<Longrightarrow>
   createAuthorizationMiddleware (Some oracle_url) t env0 r w
     = (Next (r\<lparr>fileScope := JStr ''tenant''\<rparr>),
        w\<lparr>trace := trace w @ [OracleFetch oracle_url (JObj [(''action'', JStr ''delete'')])
                                  (Some ''Bearer tok-u1'')]\<rparr>)"
  by (simp add: createAuthorizationMiddleware_def oracle_url_def bad_delete_def file_action_def
      startsWith_def oracle_body_def str_opt_def emit_def env0_def on_response_def response_ok_def
      opt_prop_def js_or_def Let_def)

lemma step_limit: "rateLimit win mx msg env0 r w = (Next r, w)"
  by (simp add: rateLimit_def env0_def)

lemma step_upload: "bad_delete r \<Longrightarrow> uploadRouter n env0 r w = (Next r, w)"
  by (simp add: uploadRouter_def bad_delete_def env0_def)

lemma step_download: "bad_delete r \<Longrightarrow> downloadRouter env0 r w = (Next r, w)"
  by (simp add: downloadRouter_def bad_delete_def env0_def)

lemma step_list: "bad_delete r \<Longrightarrow> listRouter env0 r w = (Next r, w)"
  by (simp add: listRouter_def bad_delete_def env0_def)

lemma not_a_uuid: "\<not> uuidRegex_test ''not-a-uuid''"
  by (simp add: uuidRegex_test_def eval_nat_numeral is_hex_def)

lemma step_delete:
  "bad_delete r \<Longrightarrow> user r = user_u1 \<Longrightarrow>
   deleteRouter env0 r w = (Respond (bad_request ''Invalid file ID format''), w)"
  by (simp add: deleteRouter_def bad_delete_def env0_def startsWith_def delete_handler_def
      user_u1_def not_a_uuid Let_def)

lemma health_passes:
  "route e ''GET'' ''/health'' (req_method req) (req_path req) = None \<Longrightarrow>
   healthRouter e req w = (Next req, w)"
  by (simp add: healthRouter_def)

lemma attach_user_sets_user:
  "attach_user decoded req = Next r \<Longrightarrow> user r \<noteq> JUndefined \<and> user r \<noteq> JNull"
  by (auto simp: attach_user_def Let_def split: if_splits)

lemma authenticateJWT_sets_user:
  "authenticateJWT k e req w = (Next r, w1) \<Longrightarrow> user r \<noteq> JUndefined \<and> user r \<noteq> JNull"
  unfolding authenticateJWT_def
  by (auto split: option.splits sum.splits dest: attach_user_sets_user)

lemma authenticateJwks_sets_user:
  "authenticateJwks servers e req w = (Next r, w1) \<Longrightarrow> user r \<noteq> JUndefined \<and> user r \<noteq> JNull"
  unfolding authenticateJwks_def
  by (auto split: option.splits sum.splits prod.splits dest: attach_user_sets_user)

lemma authenticated_has_user:
  "resolveAuthMiddleware cfg e req w = (Next r, w1) \<Longrightarrow> user r \<noteq> JUndefined \<and> user r \<noteq> JNull"
  unfolding resolveAuthMiddleware_def Let_def
  by (auto split: option.splits dest: authenticateJWT_sets_user authenticateJwks_sets_user)

text \<open>
  C9, as the code has it. The check sits in the route handlers, behind the middlewares. A
  request that authentication has passed on carries \<open>req.user\<close>; for such a request the
  download and the delete route answer a file id that does not match the UUID pattern with
  400 and touch neither the storage nor anything else. A request that authentication or the
  authorization middleware answers gets that answer from the server, whatever its file id.
\<close>

theorem malformed_id_rejected_by_handler:
  "(\<forall>fileId. \<not> uuidRegex_test fileId \<and> user r \<noteq> JUndefined \<and> user r \<noteq> JNull
        \<and> route e ''GET'' ''/files/:id'' (req_method r) (req_path r) = Some fileId \<longrightarrow>
        downloadRouter e r w = (Respond (bad_request ''Invalid file ID format''), w))
   \<and> (\<forall>fileId. \<not> uuidRegex_test fileId \<and> user r \<noteq> JUndefined \<and> user r \<noteq> JNull
        \<and> route e ''DELETE'' ''/files/:id'' (req_method r) (req_path r) = Some fileId \<longrightarrow>
        deleteRouter e r w = (Respond (bad_request ''Invalid file ID format''), w))
   \<and> (\<forall>req1 w1. resolveAuthMiddleware cfg e req w = (Next req1, w1) \<longrightarrow>
        user req1 \<noteq> JUndefined \<and> user req1 \<noteq> JNull)
   \<and> (\<forall>a w1. route e ''GET'' ''/health'' (req_method req) (req_path req) = None
        \<and> resolveAuthMiddleware cfg e req w = (Respond a, w1) \<longrightarrow>
        createFilesServer cfg e req w = (Some a, w1))
   \<and> (\<forall>a req1 w1 w2. route e ''GET'' ''/health'' (req_method req) (req_path req) = None
        \<and> resolveAuthMiddleware cfg e req w = (Next req1, w1)
        \<and> createAuthorizationMiddleware (authorizationUrl_opt cfg)
             (num_or (authorizationTimeout cfg) 3000) e req1 w1 = (Respond a, w2) \<longrightarrow>
        createFilesServer cfg e req w = (Some a, w2))"
proof (intro conjI impI allI)
  {
    fix fileId
    assume a: "\<not> uuidRegex_test fileId \<and> user r \<noteq> JUndefined \<and> user r \<noteq> JNull
        \<and> route e ''GET'' ''/files/:id'' (req_method r) (req_path r) = Some fileId"
    then obtain v where "get_prop (user r) ''id'' = Some v" by (cases "user r") auto
    with a show "downloadRouter e r w = (Respond (bad_request ''Invalid file ID format''), w)"
      by (simp add: downloadRouter_def download_handler_def Let_def)
  }
  {
    fix fileId
    assume a: "\<not> uuidRegex_test fileId \<and> user r \<noteq> JUndefined \<and> user r \<noteq> JNull
        \<and> route e ''DELETE'' ''/files/:id'' (req_method r) (req_path r) = Some fileId"
    then obtain v where "get_prop (user r) ''id'' = Some v" by (cases "user r") auto
    with a show "deleteRouter e r w = (Respond (bad_request ''Invalid file ID format''), w)"
      by (simp add: deleteRouter_def delete_handler_def Let_def)
  }
  {
    fix req1 w1
    assume a: "resolveAuthMiddleware cfg e req w = (Next req1, w1)"
    from authenticated_has_user [OF a] show "user req1 \<noteq> JUndefined" and "user req1 \<noteq> JNull"
      by simp_all
  }
  {
    fix a w1
    assume "route e ''GET'' ''/health'' (req_method req) (req_path req) = None
        \<and> resolveAuthMiddleware cfg e req w = (Respond a, w1)"
    then show "createFilesServer cfg e req w = (Some a, w1)"
      by (simp add: createFilesServer_def Let_def health_passes)
  }
  {
    fix a req1 w1 w2
    assume "route e ''GET'' ''/health'' (req_method req) (req_path req) = None
        \<and> resolveAuthMiddleware cfg e req w = (Next req1, w1)
        \<and> createAuthorizationMiddleware (authorizationUrl_opt cfg)
             (num_or (authorizationTimeout cfg) 3000) e req1 w1 = (Respond a, w2)"
    then show "createFilesServer cfg e req w = (Some a, w2)"
      by (simp add: createFilesServer_def Let_def health_passes)
  }
qed

theorem malformed_id_rejected_by_handler_witness:
  "\<not> uuidRegex_test ''not-a-uuid''
   \<and> fst (resolveAuthMiddleware config0 env0 delete_request world0)
       = Next (delete_request\<lparr>user := user_u1\<rparr>)
   \<and> user (delete_request\<lparr>user := user_u1\<rparr>) \<noteq> JUndefined
   \<and> user (delete_request\<lparr>user := user_u1\<rparr>) \<noteq> JNull
   \<and> route env0 ''DELETE'' ''/files/:id'' ''DELETE'' ''/files/not-a-uuid'' = Some ''not-a-uuid''
   \<and> deleteRouter env0 (delete_request\<lparr>user := user_u1\<rparr>) world0
       = (Respond (bad_request ''Invalid file ID format''), world0)
   \<and> user (delete_request\<lparr>authorization := None\<rparr>) = JUndefined
   \<and> resolveAuthMiddleware config0 env0 (delete_request\<lparr>authorization := None\<rparr>) world0
       = (Respond (unauthorized ''Missing or invalid authorization header''), world0)
   \<and> createFilesServer config0 env0 (delete_request\<lparr>authorization := None\<rparr>) world0
       = (Some (unauthorized ''Missing or invalid authorization header''), world0)
   \<and> fst (createFilesServer config0 hung_oracle delete_request world0)
       = Some (error_json 503 ''Service Unavailable'' (JStr ''Authorization service unavailable''))"
proof -
  let ?r = "delete_request\<lparr>user := user_u1\<rparr>"
  let ?q = "delete_request\<lparr>authorization := None\<rparr>"
  have b: "bad_delete delete_request"
    by (simp add: bad_delete_def delete_request_def request0_def)
  have c: "cache world0 ''https://a'' = None" by (simp add: world0_def)
  have p: "fst (resolveAuthMiddleware config0 env0 delete_request world0) = Next ?r"
    by (simp add: step_auth_miss [OF b c])
  have m: "req_method ?r = ''DELETE''" "req_path ?r = ''/files/not-a-uuid''"
    "req_method ?q = ''DELETE''" "req_path ?q = ''/files/not-a-uuid''"
    by (simp_all add: delete_request_def request0_def)
  have d: "route env0 ''DELETE'' ''/files/:id'' ''DELETE'' ''/files/not-a-uuid'' = Some ''not-a-uuid''"
    by (simp add: env0_def startsWith_def)
  have h: "route env0 ''GET'' ''/health'' ''DELETE'' ''/files/not-a-uuid'' = None"
    by (simp add: env0_def)
  have q: "user ?q = JUndefined" by (simp add: delete_request_def request0_def)
  have a: "resolveAuthMiddleware config0 env0 ?q world0
       = (Respond (unauthorized ''Missing or invalid authorization header''), world0)"
    by (simp add: resolveAuthMiddleware_def config0_def authenticateJwks_def bearer_token_def)
  from malformed_id_rejected_by_handler [of ?r env0 world0 config0 delete_request] p
  have u: "user ?r \<noteq> JUndefined \<and> user ?r \<noteq> JNull"
    by (metis prod.collapse)
  from malformed_id_rejected_by_handler [of ?r env0 world0 config0 ?q] m d h a not_a_uuid u
  have "deleteRouter env0 ?r world0 = (Respond (bad_request ''Invalid file ID format''), world0)
      \<and> createFilesServer config0 env0 ?q world0
          = (Some (unauthorized ''Missing or invalid authorization header''), world0)"
    by simp
  moreover have "fst (createFilesServer config0 hung_oracle delete_request world0)
       = Some (error_json 503 ''Service Unavailable'' (JStr ''Authorization service unavailable''))"
  proof -
    let ?w = "world0\<lparr>trace := trace world0 @ [JwksFetch ''https://a/jwks''],
                cache := (cache world0)(''https://a'' \<mapsto>
                           \<lparr>jwks = \<lparr>jwks_keys = Some [jwk1]\<rparr>, fetchedAt = 1000040\<rparr>)\<rparr>"
    have h': "route hung_oracle ''GET'' ''/health'' (req_method delete_request) (req_path delete_request) = None"
      by (simp add: hung_oracle_def env0_def delete_request_def request0_def)
    have p': "resolveAuthMiddleware config0 hung_oracle delete_request world0 = (Next ?r, ?w)"
      using b c
      by (simp add: resolveAuthMiddleware_def config0_def authenticateJwks_def bad_delete_def
          getSigningKey_def select_server_def fetchJwks_def cache_fresh_def refetch_def
          emit_def lookup_key_def strict_eq_def response_ok_def server_a_def jwk1_def Let_def
          auth_defs hung_oracle_def env0_def token_of_def user_u1_def)
    have z: "createAuthorizationMiddleware (authorizationUrl_opt config0)
               (num_or (authorizationTimeout config0) 3000) hung_oracle ?r ?w
        = (Respond (error_json 503 ''Service Unavailable'' (JStr ''Authorization service unavailable'')),
           emit OracleAbort (emit (OracleFetch ''http://api:9100/files/authorize''
              (JObj [(''action'', JStr ''delete'')]) (Some ''Bearer tok-u1'')) ?w))"
      by (simp add: createAuthorizationMiddleware_def config0_def num_or_def file_action_def
          delete_request_def request0_def startsWith_def oracle_body_def str_opt_def
          hung_oracle_def service_unavailable_def Let_def)
    from malformed_id_rejected_by_handler [of ?r hung_oracle world0 config0 delete_request] h' p' z
    show ?thesis by simp
  qed
  ultimately show ?thesis using p u d q a not_a_uuid by simp
qed

text \<open>
  C9, as stated, fails: \<open>DELETE /files/not-a-uuid\<close> with a valid token is answered 400 only
  after the key set has been fetched and the oracle has been called, once for each of the
  three stacks that carry the authorization middleware.
\<close>

theorem malformed_id_reaches_oracle:
  "\<not> uuidRegex_test ''not-a-uuid''
   \<and> fst (createFilesServer config0 env0 delete_request world0)
       = Some (bad_request ''Invalid file ID format'')
   \<and> trace (snd (createFilesServer config0 env0 delete_request world0))
       = [JwksFetch ''https://a/jwks'',
          OracleFetch oracle_url (JObj [(''action'', JStr ''delete'')]) (Some ''Bearer tok-u1''),
          OracleFetch oracle_url (JObj [(''action'', JStr ''delete'')]) (Some ''Bearer tok-u1''),
          OracleFetch oracle_url (JObj [(''action'', JStr ''delete'')]) (Some ''Bearer tok-u1'')]"
proof -
  have b: "bad_delete delete_request"
    by (simp add: bad_delete_def delete_request_def request0_def)
  have c: "cache world0 ''https://a'' = None" by (simp add: world0_def)
  have u: "authorizationUrl_opt config0 = Some oracle_url" by (simp add: config0_def oracle_url_def)
  have t: "trace world0 = []" by (simp add: world0_def)
  have "createFilesServer config0 env0 delete_request world0
     = (Some (bad_request ''Invalid file ID format''),
        world0\<lparr>trace := [JwksFetch ''https://a/jwks'',
                  OracleFetch oracle_url (JObj [(''action'', JStr ''delete'')]) (Some ''Bearer tok-u1''),
                  OracleFetch oracle_url (JObj [(''action'', JStr ''delete'')]) (Some ''Bearer tok-u1''),
                  OracleFetch oracle_url (JObj [(''action'', JStr ''delete'')]) (Some ''Bearer tok-u1'')],
                cache := (cache world0)(''https://a'' \<mapsto>
                           \<lparr>jwks = \<lparr>jwks_keys = Some [jwk1]\<rparr>, fetchedAt = 1000040\<rparr>)\<rparr>)"
    unfolding createFilesServer_def Let_def u uploadLimiter_def downloadLimiter_def
    by (simp add: b c t step_health step_auth_miss step_auth_hit step_authorize step_limit
        step_upload step_download step_list step_delete)
  then show ?thesis by (simp add: not_a_uuid)
qed


end
